theory Spec2Isabelle
  imports Complex_Main
begin

section \<open>Python values\<close>

text \<open>
  The token-exchange core of the backend (\<^verbatim>\<open>app/auth/okta_auth.py\<close>,
  \<^verbatim>\<open>app/auth/token_vault.py\<close>) and the scope gate of
  \<^verbatim>\<open>app/tools/inventory_tools.py\<close> work on the values that
  \<^verbatim>\<open>response.json()\<close> produces: \<^verbatim>\<open>None\<close>, booleans, numbers, strings,
  lists and dictionaries. A dictionary is an association list in insertion order; a
  lookup takes the first entry of a key. Timestamps (\<^verbatim>\<open>time.time()\<close>) are reals:
  the rounding of floating-point arithmetic is not modelled.
\<close>

datatype pyval =
    PNone
  | PBool bool
  | PInt int
  | PFloat real
  | PStr string
  | PList "pyval list"
  | PDict "(string \<times> pyval) list"

text \<open>Truth value testing, as \<^verbatim>\<open>if x\<close>, \<^verbatim>\<open>not x\<close>, \<^verbatim>\<open>x or y\<close> and \<^verbatim>\<open>x and y\<close> do it.\<close>

fun truthy :: "pyval \<Rightarrow> bool" where
  "truthy PNone = False"
| "truthy (PBool b) = b"
| "truthy (PInt i) = (i \<noteq> 0)"
| "truthy (PFloat r) = (r \<noteq> 0)"
| "truthy (PStr s) = (s \<noteq> [])"
| "truthy (PList xs) = (xs \<noteq> [])"
| "truthy (PDict kvs) = (kvs \<noteq> [])"

text \<open>The numeric value of a number; \<^verbatim>\<open>bool\<close> is a subclass of \<^verbatim>\<open>int\<close>.\<close>

fun num_of :: "pyval \<Rightarrow> real option" where
  "num_of (PBool b) = Some (if b then 1 else 0)"
| "num_of (PInt i) = Some (real_of_int i)"
| "num_of (PFloat r) = Some r"
| "num_of _ = None"

text \<open>
  The operator \<^verbatim>\<open>==\<close>: numbers compare by value across \<^verbatim>\<open>bool\<close>, \<^verbatim>\<open>int\<close> and
  \<^verbatim>\<open>float\<close>, lists elementwise, dictionaries as key-value mappings whatever their order.
\<close>

fun py_eq :: "pyval \<Rightarrow> pyval \<Rightarrow> bool" where
  "py_eq PNone y = (y = PNone)"
| "py_eq (PStr a) y = (y = PStr a)"
| "py_eq (PList xs) y = (case y of PList ys \<Rightarrow> list_all2 py_eq xs ys | _ \<Rightarrow> False)"
| "py_eq (PDict a) y =
     (case y of
        PDict b \<Rightarrow>
          list_all (\<lambda>(k, v). case map_of b k of Some w \<Rightarrow> py_eq v w | None \<Rightarrow> False) a
          \<and> list_all (\<lambda>(k, w). map_of a k \<noteq> None) b
      | _ \<Rightarrow> False)"
| "py_eq x y = (case (num_of x, num_of y) of (Some a, Some b) \<Rightarrow> a = b | _ \<Rightarrow> False)"

text \<open>\<^verbatim>\<open>int(x)\<close> of a float truncates towards zero.\<close>

definition py_int :: "real \<Rightarrow> int" where
  "py_int r = (if 0 \<le> r then \<lfloor>r\<rfloor> else \<lceil>r\<rceil>)"

section \<open>Errors\<close>

text \<open>
  Every exception the modelled code can raise is a value. \<open>HTTPException\<close> is FastAPI's,
  with its status code and detail; \<open>HTTPStatusError\<close> and \<open>TransportError\<close> are httpx's;
  \<open>JSONDecodeError\<close> is what \<^verbatim>\<open>response.json()\<close> and \<^verbatim>\<open>json.loads\<close> raise on a text
  that is not JSON; \<open>InvalidKeyError\<close> is PyJWT's and is not an \<^verbatim>\<open>InvalidTokenError\<close>;
  \<open>OverflowError\<close> is what the conversion of an integer too large for a float raises.
\<close>

datatype error =
    HTTPException int string
  | HTTPStatusError int
  | TransportError string
  | JSONDecodeError
  | InvalidKeyError
  | ValidationError
  | AttributeError
  | TypeError
  | KeyError
  | IndexError
  | OverflowError

text \<open>The two classes of PyJWT errors that \<^verbatim>\<open>validate_id_token\<close> catches; the second
  carries \<^verbatim>\<open>str(e)\<close>.\<close>

datatype jwt_error = ExpiredSignatureError | InvalidTokenError string

text \<open>\<^verbatim>\<open>x.get(key, default)\<close>: only a dictionary has the method.\<close>

definition alist_get :: "(string \<times> pyval) list \<Rightarrow> string \<Rightarrow> pyval \<Rightarrow> pyval" where
  "alist_get d k dflt = (case map_of d k of Some v \<Rightarrow> v | None \<Rightarrow> dflt)"

fun py_get :: "pyval \<Rightarrow> string \<Rightarrow> pyval \<Rightarrow> error + pyval" where
  "py_get (PDict d) k dflt = Inr (alist_get d k dflt)"
| "py_get _ k dflt = Inl AttributeError"

text \<open>\<^verbatim>\<open>x[key]\<close> with a string key.\<close>

fun py_item :: "pyval \<Rightarrow> string \<Rightarrow> error + pyval" where
  "py_item (PDict d) k = (case map_of d k of Some v \<Rightarrow> Inr v | None \<Rightarrow> Inl KeyError)"
| "py_item _ k = Inl TypeError"

text \<open>\<^verbatim>\<open>x[0]\<close>, reached only after \<^verbatim>\<open>x and len(x) > 0\<close>. A JSON dictionary has string
  keys only, so the key \<^verbatim>\<open>0\<close> is missing from it.\<close>

fun py_first :: "pyval \<Rightarrow> error + pyval" where
  "py_first (PList xs) = (case xs of [] \<Rightarrow> Inl IndexError | x # _ \<Rightarrow> Inr x)"
| "py_first (PStr s) = (case s of [] \<Rightarrow> Inl IndexError | c # _ \<Rightarrow> Inr (PStr [c]))"
| "py_first (PDict d) = Inl KeyError"
| "py_first _ = Inl TypeError"

text \<open>\<^verbatim>\<open>len(x)\<close>.\<close>

fun py_len :: "pyval \<Rightarrow> error + nat" where
  "py_len (PList xs) = Inr (length xs)"
| "py_len (PStr s) = Inr (length s)"
| "py_len (PDict d) = Inr (length d)"
| "py_len _ = Inl TypeError"

text \<open>The elements a \<^verbatim>\<open>for\<close> loop visits: those of a list, the characters of a string,
  the keys of a dictionary.\<close>

fun py_iter :: "pyval \<Rightarrow> error + pyval list" where
  "py_iter (PList xs) = Inr xs"
| "py_iter (PStr s) = Inr (map (\<lambda>c. PStr [c]) s)"
| "py_iter (PDict d) = Inr (map (\<lambda>kv. PStr (fst kv)) d)"
| "py_iter _ = Inl TypeError"

section \<open>Configuration, requests and the environment\<close>

text \<open>The fields of \<^verbatim>\<open>app/core/config.py\<close> that the modelled code reads.\<close>

record settings =
  okta_domain :: string
  okta_client_id :: string
  okta_issuer :: string
  wlp_client_id :: string
  wlp_private_key :: string
  auth0_domain :: string
  auth0_client_id :: string
  auth0_client_secret :: string
  salesforce_instance_url :: string
  salesforce_connection_name :: string

definition okta_issuer_url :: "settings \<Rightarrow> string" where
  "okta_issuer_url c =
     (if okta_issuer c \<noteq> [] then okta_issuer c else ''https://'' @ okta_domain c)"

definition okta_jwks_uri :: "settings \<Rightarrow> string" where
  "okta_jwks_uri c = okta_issuer_url c @ ''/oauth2/v1/keys''"

text \<open>An outbound HTTP request: \<open>form\<close> is httpx's \<^verbatim>\<open>data=\<close>, \<open>json_fields\<close> its
  \<^verbatim>\<open>json=\<close>, \<open>params\<close> the query parameters.\<close>

record request =
  meth :: string
  url :: string
  form :: "(string \<times> string) list"
  json_fields :: "(string \<times> string) list"
  params :: "(string \<times> string) list"
  headers :: "(string \<times> string) list"

text \<open>A response: its status code, and its body as \<^verbatim>\<open>response.json()\<close> reads it
  (\<open>None\<close> when the body is not JSON).\<close>

record response =
  status_code :: int
  json_body :: "pyval option"

definition response_json :: "response \<Rightarrow> error + pyval" where
  "response_json r = (case json_body r of None \<Rightarrow> Inl JSONDecodeError | Some v \<Rightarrow> Inr v)"

text \<open>httpx's \<^verbatim>\<open>raise_for_status()\<close>: any status outside 2xx raises (releases before
  0.22 let 1xx and 3xx pass; nothing below depends on those).\<close>

definition raise_for_status :: "response \<Rightarrow> error option" where
  "raise_for_status r =
     (if 200 \<le> status_code r \<and> status_code r \<le> 299 then None
      else Some (HTTPStatusError (status_code r)))"

datatype rsa_key = RSAKey pyval

text \<open>A validated \<^verbatim>\<open>UserInfo\<close> model (\<^verbatim>\<open>app/models/schemas.py\<close>).\<close>

record user_info =
  sub :: pyval
  email :: pyval
  name :: pyval
  given_name :: pyval
  family_name :: pyval
  groups :: pyval

text \<open>
  What the code takes from outside: the configuration, the clock (the k-th reading of
  \<^verbatim>\<open>time.time()\<close>), the k-th draw of \<^verbatim>\<open>uuid.uuid4()\<close>, the upstream servers (the reply
  to the n-th outbound request, \<open>Inl\<close> when no response arrives), and the libraries:
  \<^verbatim>\<open>repr\<close>, \<^verbatim>\<open>json.loads\<close>, PyJWT's \<^verbatim>\<open>RSAAlgorithm.from_jwk\<close> (applied to
  \<^verbatim>\<open>json.dumps\<close> of the value), \<^verbatim>\<open>jwt.encode\<close>, \<^verbatim>\<open>jwt.get_unverified_header\<close>,
  \<^verbatim>\<open>jwt.decode\<close> (token, key, algorithms, audience, issuer) and pydantic's validation
  of \<^verbatim>\<open>UserInfo\<close>. The arithmetic of Python's floats is taken from outside as well:
  \<open>py_float\<close> is the conversion of an integer to a float (\<open>None\<close> when the integer is
  too large), \<open>fadd\<close> and \<open>fsub\<close> are the sum and the difference of two floats, rounded
  as the machine rounds them. Infinities and NaN are not values of the model.
\<close>

record env =
  cfg :: settings
  clock :: "nat \<Rightarrow> real"
  uuid4 :: "nat \<Rightarrow> string"
  http :: "nat \<Rightarrow> request \<Rightarrow> error + response"
  py_repr :: "pyval \<Rightarrow> string"
  json_loads :: "string \<Rightarrow> error + pyval"
  from_jwk :: "pyval \<Rightarrow> error + rsa_key"
  jwt_encode :: "(string \<times> pyval) list \<Rightarrow> rsa_key \<Rightarrow> error + string"
  get_unverified_header :: "string \<Rightarrow> jwt_error + (string \<times> pyval) list"
  jwt_decode ::
    "string \<Rightarrow> rsa_key \<Rightarrow> string list \<Rightarrow> string \<Rightarrow> string \<Rightarrow> jwt_error + (string \<times> pyval) list"
  UserInfo :: "user_info \<Rightarrow> error + user_info"
  py_float :: "int \<Rightarrow> real option"
  fadd :: "real \<Rightarrow> real \<Rightarrow> real"
  fsub :: "real \<Rightarrow> real \<Rightarrow> real"

text \<open>The float operand that \<^verbatim>\<open>float + x\<close> makes of \<open>x\<close>: a float is taken as it is, an
  integer or a boolean is converted, anything else is a \<^verbatim>\<open>TypeError\<close>.\<close>

definition float_of :: "env \<Rightarrow> pyval \<Rightarrow> error + real" where
  "float_of E v =
     (case v of
        PFloat r \<Rightarrow> Inr r
      | PInt i \<Rightarrow> (case py_float E i of None \<Rightarrow> Inl OverflowError | Some r \<Rightarrow> Inr r)
      | PBool b \<Rightarrow> Inr (if b then 1 else 0)
      | _ \<Rightarrow> Inl TypeError)"

text \<open>\<^verbatim>\<open>str(x)\<close>, as an f-string renders a value.\<close>

definition py_str :: "env \<Rightarrow> pyval \<Rightarrow> string" where
  "py_str E v =
     (case v of
        PStr s \<Rightarrow> s
      | PNone \<Rightarrow> ''None''
      | PBool b \<Rightarrow> (if b then ''True'' else ''False'')
      | _ \<Rightarrow> py_repr E v)"

section \<open>Process state\<close>

text \<open>
  The two module-level singletons \<^verbatim>\<open>okta_auth\<close> and \<^verbatim>\<open>token_vault\<close> with their caches,
  and the trace of the process: the requests sent so far (oldest first), the number of
  clock readings and of UUID draws.
\<close>

record state =
  jwks_cache :: pyval
  jwks_cache_time :: real
  management_token :: pyval
  token_expiry :: real
  sent :: "request list"
  ticks :: nat
  draws :: nat

text \<open>\<^verbatim>\<open>OktaAuth.__init__\<close> and \<^verbatim>\<open>TokenVault.__init__\<close> of a fresh process.\<close>

definition init_state :: state where
  "init_state =
     \<lparr>jwks_cache = PNone, jwks_cache_time = 0, management_token = PNone, token_expiry = 0,
      sent = [], ticks = 0, draws = 0\<rparr>"

text \<open>\<^verbatim>\<open>self._cache_ttl\<close>, assigned once in \<^verbatim>\<open>__init__\<close> and never again.\<close>

definition cache_ttl :: real where
  "cache_ttl = 3600"

definition time_time :: "env \<Rightarrow> state \<Rightarrow> real \<times> state" where
  "time_time E s = (clock E (ticks s), s\<lparr>ticks := Suc (ticks s)\<rparr>)"

definition uuid_uuid4 :: "env \<Rightarrow> state \<Rightarrow> string \<times> state" where
  "uuid_uuid4 E s = (uuid4 E (draws s), s\<lparr>draws := Suc (draws s)\<rparr>)"

definition http_send :: "env \<Rightarrow> request \<Rightarrow> state \<Rightarrow> (error + response) \<times> state" where
  "http_send E req s = (http E (length (sent s)) req, s\<lparr>sent := sent s @ [req]\<rparr>)"

section \<open>\<^verbatim>\<open>OktaAuth\<close>\<close>

subsection \<open>\<^verbatim>\<open>get_jwks\<close>\<close>

definition jwks_request :: "env \<Rightarrow> request" where
  "jwks_request E =
     \<lparr>meth = ''GET'', url = okta_jwks_uri (cfg E), form = [], json_fields = [], params = [],
      headers = []\<rparr>"

text \<open>The cache test of \<^verbatim>\<open>get_jwks\<close>:
  \<^verbatim>\<open>self._jwks_cache and (current_time - self._jwks_cache_time) < self._cache_ttl\<close>.\<close>

definition jwks_cache_fresh :: "state \<Rightarrow> real \<Rightarrow> bool" where
  "jwks_cache_fresh s current_time =
     (truthy (jwks_cache s) \<and> current_time - jwks_cache_time s < cache_ttl)"

text \<open>What the fetch yields: the exception of the request, of
  \<^verbatim>\<open>response.raise_for_status()\<close> or of \<^verbatim>\<open>response.json()\<close>, or the parsed body.\<close>

definition jwks_of_reply :: "error + response \<Rightarrow> error + pyval" where
  "jwks_of_reply reply =
     (case reply of
        Inl e \<Rightarrow> Inl e
      | Inr resp \<Rightarrow>
          (case raise_for_status resp of
             Some e \<Rightarrow> Inl e
           | None \<Rightarrow> response_json resp))"

definition get_jwks :: "env \<Rightarrow> state \<Rightarrow> (error + pyval) \<times> state" where
  "get_jwks E s =
     (let (current_time, s1) = time_time E s in
      if jwks_cache_fresh s1 current_time then (Inr (jwks_cache s1), s1)
      else
        (let (reply, s2) = http_send E (jwks_request E) s1 in
         case jwks_of_reply reply of
           Inl e \<Rightarrow> (Inl e, s2)
         | Inr v \<Rightarrow>
             (let s3 = s2\<lparr>jwks_cache := v, jwks_cache_time := current_time\<rparr>
              in (Inr (jwks_cache s3), s3))))"

subsection \<open>\<^verbatim>\<open>validate_id_token\<close>\<close>

text \<open>The loop over \<^verbatim>\<open>jwks.get("keys", [])\<close>: the first key whose \<^verbatim>\<open>kid\<close> equals the
  header's, \<^verbatim>\<open>None\<close> when the loop ends without one.\<close>

fun find_rsa_key :: "pyval \<Rightarrow> pyval list \<Rightarrow> error + pyval" where
  "find_rsa_key kid [] = Inr PNone"
| "find_rsa_key kid (key # keys) =
     (case py_get key ''kid'' PNone of
        Inl e \<Rightarrow> Inl e
      | Inr k \<Rightarrow> if py_eq k kid then Inr key else find_rsa_key kid keys)"

text \<open>The two \<^verbatim>\<open>except\<close> clauses; every other exception passes through them.\<close>

definition on_jwt_error :: "jwt_error \<Rightarrow> error" where
  "on_jwt_error je =
     (case je of
        ExpiredSignatureError \<Rightarrow> HTTPException 401 ''Token has expired''
      | InvalidTokenError msg \<Rightarrow> HTTPException 401 (''Invalid token: '' @ msg))"

text \<open>The body of the \<^verbatim>\<open>try\<close> block after \<^verbatim>\<open>get_jwks\<close> has returned.\<close>

definition validate_with_jwks :: "env \<Rightarrow> string \<Rightarrow> pyval \<Rightarrow> error + user_info" where
  "validate_with_jwks E token jwks =
     (case get_unverified_header E token of
        Inl je \<Rightarrow> Inl (on_jwt_error je)
      | Inr unverified_header \<Rightarrow>
          (let kid = alist_get unverified_header ''kid'' PNone in
           case py_get jwks ''keys'' (PList []) of
             Inl e \<Rightarrow> Inl e
           | Inr ks \<Rightarrow>
               (case py_iter ks of
                  Inl e \<Rightarrow> Inl e
                | Inr keys \<Rightarrow>
                    (case find_rsa_key kid keys of
                       Inl e \<Rightarrow> Inl e
                     | Inr rsa_key \<Rightarrow>
                         if \<not> truthy rsa_key
                         then Inl (HTTPException 401 ''Invalid token: key not found'')
                         else
                           (case from_jwk E rsa_key of
                              Inl e \<Rightarrow> Inl e
                            | Inr public_key \<Rightarrow>
                                (case jwt_decode E token public_key [''RS256'']
                                        (okta_client_id (cfg E)) (okta_issuer_url (cfg E)) of
                                   Inl je \<Rightarrow> Inl (on_jwt_error je)
                                 | Inr payload \<Rightarrow>
                                     UserInfo E
                                       \<lparr>sub = alist_get payload ''sub'' PNone,
                                        email = alist_get payload ''email'' (PStr []),
                                        name = alist_get payload ''name'' PNone,
                                        given_name = alist_get payload ''given_name'' PNone,
                                        family_name = alist_get payload ''family_name'' PNone,
                                        groups = alist_get payload ''groups'' (PList [])\<rparr>))))))"

definition validate_id_token :: "env \<Rightarrow> string \<Rightarrow> state \<Rightarrow> (error + user_info) \<times> state" where
  "validate_id_token E token s =
     (case get_jwks E s of
        (Inl e, s1) \<Rightarrow> (Inl e, s1)
      | (Inr jwks, s1) \<Rightarrow> (validate_with_jwks E token jwks, s1))"

subsection \<open>\<^verbatim>\<open>generate_wlp_assertion\<close>\<close>

definition org_token_endpoint :: "settings \<Rightarrow> string" where
  "org_token_endpoint c = ''https://'' @ okta_domain c @ ''/oauth2/v1/token''"

definition custom_token_endpoint :: "settings \<Rightarrow> string \<Rightarrow> string" where
  "custom_token_endpoint c auth_server_id =
     ''https://'' @ okta_domain c @ ''/oauth2/'' @ auth_server_id @ ''/v1/token''"

text \<open>\<^verbatim>\<open>audience or f"https://{settings.okta_domain}/oauth2/v1/token"\<close>.\<close>

definition assertion_audience :: "settings \<Rightarrow> string option \<Rightarrow> string" where
  "assertion_audience c audience =
     (case audience of
        None \<Rightarrow> org_token_endpoint c
      | Some a \<Rightarrow> if a \<noteq> [] then a else org_token_endpoint c)"

definition wlp_payload :: "settings \<Rightarrow> string \<Rightarrow> int \<Rightarrow> string \<Rightarrow> (string \<times> pyval) list" where
  "wlp_payload c aud now jti =
     [(''iss'', PStr (wlp_client_id c)),
      (''sub'', PStr (wlp_client_id c)),
      (''aud'', PStr aud),
      (''iat'', PInt now),
      (''exp'', PInt (now + 300)),
      (''jti'', PStr jti)]"

definition generate_wlp_assertion ::
  "env \<Rightarrow> string option \<Rightarrow> state \<Rightarrow> (error + string) \<times> state" where
  "generate_wlp_assertion E audience s =
     (if wlp_private_key (cfg E) = []
      then (Inl (HTTPException 500 ''WLP private key not configured''), s)
      else
        (let (t, s1) = time_time E s;
             now = py_int t;
             aud = assertion_audience (cfg E) audience;
             (jti, s2) = uuid_uuid4 E s1;
             payload = wlp_payload (cfg E) aud now jti
         in case json_loads E (wlp_private_key (cfg E)) of
              Inl e \<Rightarrow> (Inl e, s2)
            | Inr private_key_jwk \<Rightarrow>
                (case from_jwk E private_key_jwk of
                   Inl e \<Rightarrow> (Inl e, s2)
                 | Inr private_key \<Rightarrow> (jwt_encode E payload private_key, s2))))"

subsection \<open>\<^verbatim>\<open>exchange_for_id_jag\<close>\<close>

definition id_jag_request :: "env \<Rightarrow> string \<Rightarrow> string \<Rightarrow> request" where
  "id_jag_request E id_token client_assertion =
     \<lparr>meth = ''POST'', url = org_token_endpoint (cfg E),
      form =
        [(''grant_type'', ''urn:ietf:params:oauth:grant-type:jwt-bearer''),
         (''assertion'', id_token),
         (''client_id'', okta_client_id (cfg E)),
         (''client_assertion_type'', ''urn:ietf:params:oauth:client-assertion-type:jwt-bearer''),
         (''client_assertion'', client_assertion),
         (''scope'', ''openid profile email'')],
      json_fields = [], params = [],
      headers = [(''Content-Type'', ''application/x-www-form-urlencoded'')]\<rparr>"

text \<open>What \<^verbatim>\<open>exchange_for_id_jag\<close> does with the response of the org authorization
  server.\<close>

definition id_jag_of_response :: "env \<Rightarrow> response \<Rightarrow> error + pyval" where
  "id_jag_of_response E resp =
     (if status_code resp \<noteq> 200 then
        (case response_json resp of
           Inl e \<Rightarrow> Inl e
         | Inr err \<Rightarrow>
             (case py_get err ''error'' PNone of
                Inl e \<Rightarrow> Inl e
              | Inr code \<Rightarrow>
                  (case py_get err ''error_description'' code of
                     Inl e \<Rightarrow> Inl e
                   | Inr d \<Rightarrow>
                       Inl (HTTPException 401 (''ID-JAG exchange failed: '' @ py_str E d)))))
      else
        (case response_json resp of
           Inl e \<Rightarrow> Inl e
         | Inr data \<Rightarrow> py_get data ''id_token'' PNone))"

definition exchange_for_id_jag :: "env \<Rightarrow> string \<Rightarrow> state \<Rightarrow> (error + pyval) \<times> state" where
  "exchange_for_id_jag E id_token s =
     (case generate_wlp_assertion E None s of
        (Inl e, s1) \<Rightarrow> (Inl e, s1)
      | (Inr client_assertion, s1) \<Rightarrow>
          (let (reply, s2) = http_send E (id_jag_request E id_token client_assertion) s1 in
           case reply of
             Inl e \<Rightarrow> (Inl e, s2)
           | Inr resp \<Rightarrow> (id_jag_of_response E resp, s2)))"

subsection \<open>\<^verbatim>\<open>exchange_id_jag_for_token\<close>\<close>

text \<open>\<^verbatim>\<open>" ".join(scopes)\<close>.\<close>

fun join_spaces :: "string list \<Rightarrow> string" where
  "join_spaces [] = []"
| "join_spaces [x] = x"
| "join_spaces (x # y # ys) = x @ '' '' @ join_spaces (y # ys)"

definition scoped_token_request ::
  "env \<Rightarrow> string \<Rightarrow> string \<Rightarrow> string list \<Rightarrow> string \<Rightarrow> request" where
  "scoped_token_request E id_jag auth_server_id scopes client_assertion =
     \<lparr>meth = ''POST'', url = custom_token_endpoint (cfg E) auth_server_id,
      form =
        [(''grant_type'', ''urn:ietf:params:oauth:grant-type:token-exchange''),
         (''subject_token'', id_jag),
         (''subject_token_type'', ''urn:ietf:params:oauth:token-type:id_token''),
         (''client_id'', okta_client_id (cfg E)),
         (''client_assertion_type'', ''urn:ietf:params:oauth:client-assertion-type:jwt-bearer''),
         (''client_assertion'', client_assertion),
         (''scope'', join_spaces scopes)],
      json_fields = [], params = [],
      headers = [(''Content-Type'', ''application/x-www-form-urlencoded'')]\<rparr>"

text \<open>What \<^verbatim>\<open>exchange_id_jag_for_token\<close> does with the response of the custom
  authorization server.\<close>

definition token_of_response :: "response \<Rightarrow> error + pyval" where
  "token_of_response resp =
     (if status_code resp \<noteq> 200 then
        (case response_json resp of
           Inl e \<Rightarrow> Inl e
         | Inr err \<Rightarrow>
             (case py_get err ''error'' PNone of
                Inl e \<Rightarrow> Inl e
              | Inr code \<Rightarrow>
                  (case py_get err ''error_description'' PNone of
                     Inl e \<Rightarrow> Inl e
                   | Inr d \<Rightarrow>
                       Inr (PDict [(''success'', PBool False), (''error'', code),
                                   (''error_description'', d)]))))
      else
        (case response_json resp of
           Inl e \<Rightarrow> Inl e
         | Inr data \<Rightarrow>
             (case py_get data ''access_token'' PNone of
                Inl e \<Rightarrow> Inl e
              | Inr access_token \<Rightarrow>
                  (case py_get data ''token_type'' (PStr ''Bearer'') of
                     Inl e \<Rightarrow> Inl e
                   | Inr token_type \<Rightarrow>
                       (case py_get data ''expires_in'' PNone of
                          Inl e \<Rightarrow> Inl e
                        | Inr expires_in \<Rightarrow>
                            (case py_get data ''scope'' PNone of
                               Inl e \<Rightarrow> Inl e
                             | Inr scope \<Rightarrow>
                                 Inr (PDict [(''success'', PBool True),
                                             (''access_token'', access_token),
                                             (''token_type'', token_type),
                                             (''expires_in'', expires_in),
                                             (''scope'', scope)])))))))"

definition exchange_id_jag_for_token ::
  "env \<Rightarrow> string \<Rightarrow> string \<Rightarrow> string list \<Rightarrow> state \<Rightarrow> (error + pyval) \<times> state" where
  "exchange_id_jag_for_token E id_jag auth_server_id scopes s =
     (case generate_wlp_assertion E (Some (custom_token_endpoint (cfg E) auth_server_id)) s of
        (Inl e, s1) \<Rightarrow> (Inl e, s1)
      | (Inr client_assertion, s1) \<Rightarrow>
          (let (reply, s2) =
                 http_send E
                   (scoped_token_request E id_jag auth_server_id scopes client_assertion) s1
           in case reply of
                Inl e \<Rightarrow> (Inl e, s2)
              | Inr resp \<Rightarrow> (token_of_response resp, s2)))"

section \<open>\<^verbatim>\<open>TokenVault\<close>\<close>

subsection \<open>\<^verbatim>\<open>get_management_token\<close>\<close>

definition auth0_token_endpoint :: "settings \<Rightarrow> string" where
  "auth0_token_endpoint c = ''https://'' @ auth0_domain c @ ''/oauth/token''"

definition auth0_api_audience :: "settings \<Rightarrow> string" where
  "auth0_api_audience c = ''https://'' @ auth0_domain c @ ''/api/v2/''"

definition management_request :: "env \<Rightarrow> request" where
  "management_request E =
     \<lparr>meth = ''POST'', url = auth0_token_endpoint (cfg E), form = [],
      json_fields =
        [(''grant_type'', ''client_credentials''),
         (''client_id'', auth0_client_id (cfg E)),
         (''client_secret'', auth0_client_secret (cfg E)),
         (''audience'', auth0_api_audience (cfg E))],
      params = [], headers = []\<rparr>"

text \<open>
  The part of \<^verbatim>\<open>get_management_token\<close> below the cache test. The token is stored
  before the expiry is computed, with a second reading of the clock:
  \<^verbatim>\<open>time.time() + data.get("expires_in", 86400) - 60\<close>, a float sum and a float
  difference; an \<^verbatim>\<open>expires_in\<close> that is no number, or an integer too large for a float,
  raises with the token already stored.
\<close>

definition fetch_management_token :: "env \<Rightarrow> state \<Rightarrow> (error + pyval) \<times> state" where
  "fetch_management_token E s =
     (let (reply, s1) = http_send E (management_request E) s in
      case reply of
        Inl e \<Rightarrow> (Inl e, s1)
      | Inr resp \<Rightarrow>
          if status_code resp \<noteq> 200
          then (Inl (HTTPException 500 ''Failed to get Auth0 management token''), s1)
          else
            (case response_json resp of
               Inl e \<Rightarrow> (Inl e, s1)
             | Inr data \<Rightarrow>
                 (case py_item data ''access_token'' of
                    Inl e \<Rightarrow> (Inl e, s1)
                  | Inr tok \<Rightarrow>
                      (let s2 = s1\<lparr>management_token := tok\<rparr>;
                           (t, s3) = time_time E s2
                       in case py_get data ''expires_in'' (PInt 86400) of
                            Inl e \<Rightarrow> (Inl e, s3)
                          | Inr expires_in \<Rightarrow>
                              (case float_of E expires_in of
                                 Inl e \<Rightarrow> (Inl e, s3)
                               | Inr n \<Rightarrow>
                                   (let s4 = s3\<lparr>token_expiry := fsub E (fadd E t n) 60\<rparr>
                                    in (Inr (management_token s4), s4)))))))"

text \<open>\<^verbatim>\<open>if self._management_token and time.time() < self._token_expiry\<close>: the clock is
  read only when a token is cached.\<close>

definition get_management_token :: "env \<Rightarrow> state \<Rightarrow> (error + pyval) \<times> state" where
  "get_management_token E s =
     (if truthy (management_token s) then
        (let (t, s1) = time_time E s in
         if t < token_expiry s1 then (Inr (management_token s1), s1)
         else fetch_management_token E s1)
      else fetch_management_token E s)"

subsection \<open>\<^verbatim>\<open>get_salesforce_token\<close>\<close>

definition user_request :: "env \<Rightarrow> string \<Rightarrow> pyval \<Rightarrow> request" where
  "user_request E auth0_user_id token =
     \<lparr>meth = ''GET'',
      url = ''https://'' @ auth0_domain (cfg E) @ ''/api/v2/users/'' @ auth0_user_id,
      form = [], json_fields = [],
      params = [(''fields'', ''identities''), (''include_fields'', ''true'')],
      headers = [(''Authorization'', ''Bearer '' @ py_str E token)]\<rparr>"

text \<open>The loop over the linked identities: the first whose \<^verbatim>\<open>provider\<close> equals the
  configured connection name, \<^verbatim>\<open>None\<close> when there is none.\<close>

fun find_identity :: "string \<Rightarrow> pyval list \<Rightarrow> error + pyval" where
  "find_identity conn [] = Inr PNone"
| "find_identity conn (identity # rest) =
     (case py_get identity ''provider'' PNone of
        Inl e \<Rightarrow> Inl e
      | Inr p \<Rightarrow> if py_eq p (PStr conn) then Inr identity else find_identity conn rest)"

definition denial :: "string \<Rightarrow> string \<Rightarrow> pyval" where
  "denial err description =
     PDict [(''success'', PBool False), (''error'', PStr err),
            (''error_description'', PStr description)]"

text \<open>What \<^verbatim>\<open>get_salesforce_token\<close> does with the response of the user lookup.\<close>

definition salesforce_of_response :: "env \<Rightarrow> response \<Rightarrow> error + pyval" where
  "salesforce_of_response E resp =
     (if status_code resp \<noteq> 200
      then Inr (denial ''user_not_found'' ''Could not find user in Auth0'')
      else
        (case response_json resp of
           Inl e \<Rightarrow> Inl e
         | Inr user_data \<Rightarrow>
             (case py_get user_data ''identities'' (PList []) of
                Inl e \<Rightarrow> Inl e
              | Inr identities \<Rightarrow>
                  (case py_iter identities of
                     Inl e \<Rightarrow> Inl e
                   | Inr ids \<Rightarrow>
                       (case find_identity (salesforce_connection_name (cfg E)) ids of
                          Inl e \<Rightarrow> Inl e
                        | Inr salesforce_identity \<Rightarrow>
                            if \<not> truthy salesforce_identity
                            then Inr (denial ''salesforce_not_connected''
                                        ''User has not connected their Salesforce account'')
                            else
                              (case py_get salesforce_identity ''access_token'' PNone of
                                 Inl e \<Rightarrow> Inl e
                               | Inr access_token \<Rightarrow>
                                   (case py_get salesforce_identity ''refresh_token'' PNone of
                                      Inl e \<Rightarrow> Inl e
                                    | Inr refresh_token \<Rightarrow>
                                        if \<not> truthy access_token
                                        then Inr (denial ''no_token''
                                                    ''No Salesforce token available'')
                                        else
                                          Inr (PDict
                                            [(''success'', PBool True),
                                             (''access_token'', access_token),
                                             (''refresh_token'', refresh_token),
                                             (''instance_url'',
                                                PStr (salesforce_instance_url (cfg E)))]))))))))"

text \<open>\<^verbatim>\<open>token = vault_token or await self.get_management_token()\<close>.\<close>

definition vault_or_management_token ::
  "env \<Rightarrow> string option \<Rightarrow> state \<Rightarrow> (error + pyval) \<times> state" where
  "vault_or_management_token E vault_token s =
     (case vault_token of
        None \<Rightarrow> get_management_token E s
      | Some t \<Rightarrow> if t \<noteq> [] then (Inr (PStr t), s) else get_management_token E s)"

definition get_salesforce_token ::
  "env \<Rightarrow> string \<Rightarrow> string option \<Rightarrow> state \<Rightarrow> (error + pyval) \<times> state" where
  "get_salesforce_token E auth0_user_id vault_token s =
     (case vault_or_management_token E vault_token s of
        (Inl e, s1) \<Rightarrow> (Inl e, s1)
      | (Inr token, s1) \<Rightarrow>
          (let (reply, s2) = http_send E (user_request E auth0_user_id token) s1 in
           case reply of
             Inl e \<Rightarrow> (Inl e, s2)
           | Inr resp \<Rightarrow> (salesforce_of_response E resp, s2)))"

subsection \<open>\<^verbatim>\<open>get_user_id_from_okta_sub\<close>\<close>

definition search_request :: "env \<Rightarrow> string \<Rightarrow> pyval \<Rightarrow> request" where
  "search_request E okta_sub token =
     \<lparr>meth = ''GET'', url = ''https://'' @ auth0_domain (cfg E) @ ''/api/v2/users'',
      form = [], json_fields = [],
      params =
        [(''q'', ''identities.user_id:'' @ [CHR 0x22] @ okta_sub @ [CHR 0x22]),
         (''search_engine'', ''v3'')],
      headers = [(''Authorization'', ''Bearer '' @ py_str E token)]\<rparr>"

text \<open>What \<^verbatim>\<open>get_user_id_from_okta_sub\<close> does with the response of the search:
  \<^verbatim>\<open>if users and len(users) > 0: return users[0].get("user_id")\<close>.\<close>

definition user_id_of_response :: "response \<Rightarrow> error + pyval" where
  "user_id_of_response resp =
     (if status_code resp \<noteq> 200 then Inr PNone
      else
        (case response_json resp of
           Inl e \<Rightarrow> Inl e
         | Inr users \<Rightarrow>
             if \<not> truthy users then Inr PNone
             else
               (case py_len users of
                  Inl e \<Rightarrow> Inl e
                | Inr n \<Rightarrow>
                    if n > 0 then
                      (case py_first users of
                         Inl e \<Rightarrow> Inl e
                       | Inr u \<Rightarrow> py_get u ''user_id'' PNone)
                    else Inr PNone)))"

definition get_user_id_from_okta_sub ::
  "env \<Rightarrow> string \<Rightarrow> state \<Rightarrow> (error + pyval) \<times> state" where
  "get_user_id_from_okta_sub E okta_sub s =
     (case get_management_token E s of
        (Inl e, s1) \<Rightarrow> (Inl e, s1)
      | (Inr token, s1) \<Rightarrow>
          (let (reply, s2) = http_send E (search_request E okta_sub token) s1 in
           case reply of
             Inl e \<Rightarrow> (Inl e, s2)
           | Inr resp \<Rightarrow> (user_id_of_response resp, s2)))"

section \<open>\<^verbatim>\<open>InventoryTools\<close>\<close>

text \<open>
  The scope gate of the inventory tools. The product and alert stores are whatever the
  tool bodies work on (the type \<open>'st\<close>); the call \<^verbatim>\<open>await func(**kwargs)\<close> either
  returns a result or raises, and \<^verbatim>\<open>except Exception as e\<close> keeps \<^verbatim>\<open>str(e)\<close>.
\<close>

datatype tool_call_status = PENDING | RUNNING | COMPLETED | ERROR

record tool_call =
  tc_id :: string
  tc_name :: string
  tc_status :: tool_call_status
  tc_arguments :: "(string \<times> pyval) list"
  tc_result :: "pyval option"
  tc_error :: "string option"
  tc_duration :: int

record inventory_tools =
  user_scopes :: "string list"

definition all_inventory_scopes :: "string list" where
  "all_inventory_scopes = [''inventory:read'', ''inventory:write'', ''inventory:alert'']"

text \<open>\<^verbatim>\<open>self.user_scopes = user_scopes or ["inventory:read", "inventory:write",
  "inventory:alert"]\<close>.\<close>

definition InventoryTools :: "string list option \<Rightarrow> inventory_tools" where
  "InventoryTools scopes =
     \<lparr>user_scopes =
        (case scopes of
           None \<Rightarrow> all_inventory_scopes
         | Some xs \<Rightarrow> if xs \<noteq> [] then xs else all_inventory_scopes)\<rparr>"

definition has_scope :: "inventory_tools \<Rightarrow> string \<Rightarrow> bool" where
  "has_scope self required_scope = (required_scope \<in> set (user_scopes self))"

text \<open>The gate of \<^verbatim>\<open>_execute_tool\<close>:
  \<^verbatim>\<open>if required_scope and not self._has_scope(required_scope)\<close>.\<close>

definition scope_denied :: "inventory_tools \<Rightarrow> string option \<Rightarrow> bool" where
  "scope_denied self required_scope =
     (case required_scope of
        None \<Rightarrow> False
      | Some r \<Rightarrow> r \<noteq> [] \<and> \<not> has_scope self r)"

definition millis :: "real \<Rightarrow> int" where
  "millis d = py_int (d * 1000)"

definition execute_tool ::
  "env \<Rightarrow> inventory_tools \<Rightarrow> string \<Rightarrow> ('st \<Rightarrow> (string + pyval) \<times> 'st) \<Rightarrow> string option \<Rightarrow>
   (string \<times> pyval) list \<Rightarrow> state \<Rightarrow> 'st \<Rightarrow> tool_call \<times> state \<times> 'st" where
  "execute_tool E self tool_name func required_scope kwargs s st =
     (let (t0, s1) = time_time E s;
          tool_id = ''inv-'' @ tool_name @ ''-'' @ py_str E (PInt (millis t0));
          (start_time, s2) = time_time E s1
      in if scope_denied self required_scope then
           (\<lparr>tc_id = tool_id, tc_name = ''inventory.'' @ tool_name, tc_status = ERROR,
             tc_arguments = kwargs, tc_result = None,
             tc_error = Some (''Access denied: requires scope '' @ [CHR 0x27]
                              @ (case required_scope of Some r \<Rightarrow> r | None \<Rightarrow> ''None'')
                              @ [CHR 0x27]),
             tc_duration = 0\<rparr>, s2, st)
         else
           (let (outcome, st') = func st;
                (t1, s3) = time_time E s2
            in case outcome of
                 Inr result \<Rightarrow>
                   (\<lparr>tc_id = tool_id, tc_name = ''inventory.'' @ tool_name,
                     tc_status = COMPLETED, tc_arguments = kwargs, tc_result = Some result,
                     tc_error = None, tc_duration = millis (t1 - start_time)\<rparr>, s3, st')
               | Inl msg \<Rightarrow>
                   (\<lparr>tc_id = tool_id, tc_name = ''inventory.'' @ tool_name,
                     tc_status = ERROR, tc_arguments = kwargs, tc_result = None,
                     tc_error = Some msg, tc_duration = millis (t1 - start_time)\<rparr>, s3, st')))"

text \<open>The twelve calls of \<^verbatim>\<open>_execute_tool\<close> in the class and the scope each passes. The
  asynchronous \<^verbatim>\<open>get_alerts\<close> is among them although the synchronous method of the same
  name, defined further down in the class, takes its place as the attribute.\<close>

definition tool_scopes :: "(string \<times> string) list" where
  "tool_scopes =
     [(''check_stock'', ''inventory:read''),
      (''get_product_details'', ''inventory:read''),
      (''search_products'', ''inventory:read''),
      (''update_stock'', ''inventory:write''),
      (''bulk_stock_update'', ''inventory:write''),
      (''set_reorder_point'', ''inventory:write''),
      (''get_alerts'', ''inventory:alert''),
      (''create_alert'', ''inventory:alert''),
      (''dismiss_alert'', ''inventory:alert''),
      (''get_stock_summary'', ''inventory:read''),
      (''get_low_stock_report'', ''inventory:read''),
      (''get_category_breakdown'', ''inventory:read'')]"

section \<open>Runs of the process\<close>

text \<open>
  The calls that change the process state: the methods of the two singletons, and, for
  the rest of the application, a reading of the clock and a draw of \<^verbatim>\<open>uuid.uuid4()\<close>
  (the chat router and the tool-call model draw identifiers of their own). A run is a
  sequence of calls, each starting in the state the one before has left.
\<close>

datatype call =
    GetJwks
  | ValidateIdToken string
  | GenerateWlpAssertion "string option"
  | ExchangeForIdJag string
  | ExchangeIdJagForToken string string "string list"
  | GetManagementToken
  | GetSalesforceToken string "string option"
  | GetUserIdFromOktaSub string
  | ReadClock
  | DrawUuid

fun exec :: "env \<Rightarrow> call \<Rightarrow> state \<Rightarrow> state" where
  "exec E GetJwks s = snd (get_jwks E s)"
| "exec E (ValidateIdToken token) s = snd (validate_id_token E token s)"
| "exec E (GenerateWlpAssertion audience) s = snd (generate_wlp_assertion E audience s)"
| "exec E (ExchangeForIdJag id_token) s = snd (exchange_for_id_jag E id_token s)"
| "exec E (ExchangeIdJagForToken id_jag auth_server_id scopes) s =
     snd (exchange_id_jag_for_token E id_jag auth_server_id scopes s)"
| "exec E GetManagementToken s = snd (get_management_token E s)"
| "exec E (GetSalesforceToken auth0_user_id vault_token) s =
     snd (get_salesforce_token E auth0_user_id vault_token s)"
| "exec E (GetUserIdFromOktaSub okta_sub) s = snd (get_user_id_from_okta_sub E okta_sub s)"
| "exec E ReadClock s = snd (time_time E s)"
| "exec E DrawUuid s = snd (uuid_uuid4 E s)"

fun run :: "env \<Rightarrow> call list \<Rightarrow> state \<Rightarrow> state" where
  "run E [] s = s"
| "run E (c # cs) s = run E cs (exec E c s)"

section \<open>Example environments\<close>

text \<open>
  A concrete configuration and environment on which the definitions are evaluated. The
  parameters are the configured workload key and the upstream servers. The clock starts
  at 1700000000 and advances by one second at each reading; the k-th UUID is
  \<open>uuid-\<close> followed by k letters; \<^verbatim>\<open>json.loads\<close> accepts the text \<open>jwk-json\<close>
  only; the header of a token carries the token's text as \<^verbatim>\<open>kid\<close>; the signed text
  shows the \<^verbatim>\<open>jti\<close> of the claims; float sums and differences are exact, as they are
  on the whole numbers used here.
\<close>

definition test_settings :: "string \<Rightarrow> settings" where
  "test_settings key =
     \<lparr>okta_domain = ''okta.example'', okta_client_id = ''client-1'', okta_issuer = '''',
      wlp_client_id = ''wlp-1'', wlp_private_key = key, auth0_domain = ''vault.example'',
      auth0_client_id = ''vault-client'', auth0_client_secret = ''secret'',
      salesforce_instance_url = ''https://crm.example'',
      salesforce_connection_name = ''salesforce''\<rparr>"

definition test_env :: "string \<Rightarrow> (nat \<Rightarrow> request \<Rightarrow> error + response) \<Rightarrow> env" where
  "test_env key upstream =
     \<lparr>cfg = test_settings key,
      clock = (\<lambda>k. 1700000000 + real k),
      uuid4 = (\<lambda>k. ''uuid-'' @ replicate k (CHR ''x'')),
      http = upstream,
      py_repr = (\<lambda>v. ''?''),
      json_loads = (\<lambda>txt. if txt = ''jwk-json'' then Inr (PDict [(''kty'', PStr ''RSA'')])
                           else Inl JSONDecodeError),
      from_jwk = (\<lambda>v. Inr (RSAKey v)),
      jwt_encode =
        (\<lambda>payload key.
           Inr (''jwt:'' @ (case map_of payload ''jti'' of Some (PStr j) \<Rightarrow> j | _ \<Rightarrow> ''?''))),
      get_unverified_header = (\<lambda>token. Inr [(''alg'', PStr ''RS256''), (''kid'', PStr token)]),
      jwt_decode = (\<lambda>token key algs aud iss. Inr [(''sub'', PStr ''user-42'')]),
      UserInfo = Inr,
      py_float = (\<lambda>i. Some (real_of_int i)),
      fadd = (\<lambda>a b. a + b),
      fsub = (\<lambda>a b. a - b)\<rparr>"

text \<open>Upstream servers: a gateway that answers every request with 502 and a body that is
  not JSON; an authorization server that denies with an OAuth error; one that answers 200
  with the given JSON body.\<close>

definition bad_gateway :: "nat \<Rightarrow> request \<Rightarrow> error + response" where
  "bad_gateway n req = Inr \<lparr>status_code = 502, json_body = None\<rparr>"

definition denying_server :: "nat \<Rightarrow> request \<Rightarrow> error + response" where
  "denying_server n req =
     Inr \<lparr>status_code = 400,
          json_body = Some (PDict [(''error'', PStr ''access_denied''),
                                   (''error_description'', PStr ''no access'')])\<rparr>"

definition ok_server :: "pyval \<Rightarrow> nat \<Rightarrow> request \<Rightarrow> error + response" where
  "ok_server body n req = Inr \<lparr>status_code = 200, json_body = Some body\<rparr>"

definition failing_server :: "nat \<Rightarrow> request \<Rightarrow> error + response" where
  "failing_server n req = Inr \<lparr>status_code = 500, json_body = Some (PDict [])\<rparr>"

text \<open>The vault: the token endpoint grants, for 3600 seconds, the token \<open>mgmt-token\<close>
  followed by one \<open>+\<close> for every request the process has sent before; every other
  endpoint answers 200 with the given body.\<close>

definition vault_server :: "pyval \<Rightarrow> nat \<Rightarrow> request \<Rightarrow> error + response" where
  "vault_server body n req =
     (if url req = ''https://vault.example/oauth/token''
      then Inr \<lparr>status_code = 200,
                json_body =
                  Some (PDict [(''access_token'', PStr (''mgmt-token'' @ replicate n (CHR ''+''))),
                               (''expires_in'', PInt 3600)])\<rparr>
      else Inr \<lparr>status_code = 200, json_body = Some body\<rparr>)"


text \<open>A search answer with one record, of a user linked to the subject \<open>user-7\<close>.\<close>

definition other_user_records :: pyval where
  "other_user_records =
     PList [PDict [(''user_id'', PStr ''auth0|other''),
                   (''identities'', PList [PDict [(''user_id'', PStr ''user-7'')]])]]"

text \<open>A process whose key-set cache was filled at time 1699999000.\<close>

definition cached_state :: "pyval \<Rightarrow> state" where
  "cached_state jwks = init_state\<lparr>jwks_cache := jwks, jwks_cache_time := 1699999000\<rparr>"

definition one_key_jwks :: pyval where
  "one_key_jwks = PDict [(''keys'', PList [PDict [(''kid'', PStr ''k1''), (''kty'', PStr ''RSA'')]])]"

section \<open>The key material provider and the identity token validator\<close>

lemma get_jwks_hit:
  assumes "truthy (jwks_cache s)" and "clock E (ticks s) - jwks_cache_time s < 3600"
  shows "get_jwks E s = (Inr (jwks_cache s), s\<lparr>ticks := Suc (ticks s)\<rparr>)"
  using assms by (simp add: get_jwks_def time_time_def jwks_cache_fresh_def cache_ttl_def)


lemma get_jwks_cached_state:
  "truthy jwks \<Longrightarrow>
   get_jwks (test_env key up) (cached_state jwks) = (Inr jwks, (cached_state jwks)\<lparr>ticks := 1\<rparr>)"
  by (simp add: get_jwks_hit test_env_def cached_state_def init_state_def)



lemma find_rsa_key_no_match:
  "\<forall>k \<in> set keys. \<not> py_eq (alist_get k ''kid'' PNone) kid \<Longrightarrow>
   find_rsa_key kid (map PDict keys) = Inr PNone"
  by (induction keys) simp_all

text \<open>
  Claim C3. When \<^verbatim>\<open>get_jwks\<close> hands over a key set (the cached one, within its hour)
  and no key of it has the \<^verbatim>\<open>kid\<close> of the token's header, \<^verbatim>\<open>validate_id_token\<close>
  raises the \<^verbatim>\<open>HTTPException\<close> 401 "Invalid token: key not found" and nothing else,
  whatever signature, issuer, audience and expiry checks would say: the lookup comes
  first and neither \<^verbatim>\<open>except\<close> clause catches its error.
\<close>

theorem validate_id_token_key_not_found:
  assumes jwks: "get_jwks E s = (Inr (PDict jwks), s1)"
    and header: "get_unverified_header E token = Inr header"
    and keys: "alist_get jwks ''keys'' (PList []) = PList (map PDict keys)"
    and no_match:
      "\<forall>k \<in> set keys. \<not> py_eq (alist_get k ''kid'' PNone) (alist_get header ''kid'' PNone)"
  shows "fst (validate_id_token E token s)
           = Inl (HTTPException 401 ''Invalid token: key not found'')"
  using header keys find_rsa_key_no_match[OF no_match]
  by (simp add: validate_id_token_def jwks validate_with_jwks_def)

theorem validate_id_token_key_not_found_witness:
  "fst (validate_id_token (test_env ''jwk-json'' bad_gateway) ''k2'' (cached_state one_key_jwks))
     = Inl (HTTPException 401 ''Invalid token: key not found'')"
proof -
  let ?E = "test_env ''jwk-json'' bad_gateway"
  have c: "get_jwks ?E (cached_state one_key_jwks)
      = (Inr (PDict [(''keys'', PList [PDict [(''kid'', PStr ''k1''), (''kty'', PStr ''RSA'')]])]),
         (cached_state one_key_jwks)\<lparr>ticks := 1\<rparr>)"
    using get_jwks_cached_state[of one_key_jwks "''jwk-json''" bad_gateway]
    by (simp add: one_key_jwks_def)
  have h: "get_unverified_header ?E ''k2'' = Inr [(''alg'', PStr ''RS256''), (''kid'', PStr ''k2'')]"
    by (simp add: test_env_def)
  show ?thesis
    using validate_id_token_key_not_found[OF c h,
        where keys = "[[(''kid'', PStr ''k1''), (''kty'', PStr ''RSA'')]]"]
    by (simp add: alist_get_def)
qed

section \<open>The delegated token exchange\<close>

lemma exchange_for_id_jag_eq:
  assumes "generate_wlp_assertion E None s = (Inr ca, s1)"
    and "http E (length (sent s1)) (id_jag_request E id_token ca) = Inr resp"
  shows "fst (exchange_for_id_jag E id_token s) = id_jag_of_response E resp"
  using assms by (simp add: exchange_for_id_jag_def http_send_def)

lemma exchange_id_jag_for_token_eq:
  assumes "generate_wlp_assertion E (Some (custom_token_endpoint (cfg E) auth_server_id)) s
             = (Inr ca, s1)"
    and "http E (length (sent s1)) (scoped_token_request E id_jag auth_server_id scopes ca)
             = Inr resp"
  shows "fst (exchange_id_jag_for_token E id_jag auth_server_id scopes s) = token_of_response resp"
  using assms by (simp add: exchange_id_jag_for_token_def http_send_def)

lemma generate_wlp_assertion_test_env:
  "generate_wlp_assertion (test_env ''jwk-json'' up) aud init_state =
     (Inr ''jwt:uuid-'', init_state\<lparr>ticks := 1, draws := 1\<rparr>)"
  by (simp add: generate_wlp_assertion_def test_env_def test_settings_def time_time_def
      uuid_uuid4_def init_state_def wlp_payload_def)

text \<open>
  When the custom authorization server answers the exchange with a JSON object,
  \<^verbatim>\<open>exchange_id_jag_for_token\<close> returns a dictionary: for a status other than 200 it is
  \<^verbatim>\<open>{success: False, error, error_description}\<close> with the two fields of the body, for
  200 it is \<^verbatim>\<open>{success: True, access_token, token_type, expires_in, scope}\<close> with
  \<^verbatim>\<open>token_type\<close> defaulting to \<^verbatim>\<open>Bearer\<close>.
\<close>

lemma exchange_id_jag_for_token_on_json_object:
  assumes mint: "generate_wlp_assertion E (Some (custom_token_endpoint (cfg E) auth_server_id)) s
                   = (Inr ca, s1)"
    and reply: "http E (length (sent s1))
                   (scoped_token_request E id_jag auth_server_id scopes ca) = Inr resp"
    and body: "json_body resp = Some (PDict d)"
  shows "fst (exchange_id_jag_for_token E id_jag auth_server_id scopes s) =
           (if status_code resp \<noteq> 200
            then Inr (PDict [(''success'', PBool False),
                             (''error'', alist_get d ''error'' PNone),
                             (''error_description'', alist_get d ''error_description'' PNone)])
            else Inr (PDict [(''success'', PBool True),
                             (''access_token'', alist_get d ''access_token'' PNone),
                             (''token_type'', alist_get d ''token_type'' (PStr ''Bearer'')),
                             (''expires_in'', alist_get d ''expires_in'' PNone),
                             (''scope'', alist_get d ''scope'' PNone)]))"
  unfolding exchange_id_jag_for_token_eq[OF mint reply]
  using body by (simp add: token_of_response_def response_json_def)

text \<open>
  Claim C1. The claim has \<^verbatim>\<open>exchange_id_jag_for_token\<close> return
  \<^verbatim>\<open>{success: False, ...}\<close> for every response with a status other than 200. The code
  reads \<^verbatim>\<open>response.json()\<close> before it builds that dictionary, under the comment
  "Don't raise - return access denied info": when a gateway answers 502 with a body that is
  not JSON, the call raises \<^verbatim>\<open>JSONDecodeError\<close> and returns nothing.
\<close>

theorem exchange_id_jag_for_token_bad_gateway:
  "fst (exchange_id_jag_for_token (test_env ''jwk-json'' bad_gateway) ''id-jag'' ''inv-as-1''
          [''inventory:read''] init_state) = Inl JSONDecodeError"
proof -
  have r: "http (test_env ''jwk-json'' bad_gateway) n req
             = Inr \<lparr>status_code = 502, json_body = None\<rparr>" for n req
    by (simp add: test_env_def bad_gateway_def)
  show ?thesis
    by (simp add: exchange_id_jag_for_token_eq[OF generate_wlp_assertion_test_env r]
        token_of_response_def response_json_def)
qed

text \<open>
  On a status other than 200 \<^verbatim>\<open>exchange_for_id_jag\<close> always raises and never returns a
  value; when the body is a JSON object the error is the \<^verbatim>\<open>HTTPException\<close> 401 whose
  detail carries the body's \<^verbatim>\<open>error_description\<close> or, when the body has no such key,
  its \<^verbatim>\<open>error\<close>.
\<close>

lemma exchange_for_id_jag_raises:
  assumes mint: "generate_wlp_assertion E None s = (Inr ca, s1)"
    and reply: "http E (length (sent s1)) (id_jag_request E id_token ca) = Inr resp"
    and status: "status_code resp \<noteq> 200"
  shows "(\<exists>e. fst (exchange_for_id_jag E id_token s) = Inl e)
     \<and> (\<forall>d. json_body resp = Some (PDict d) \<longrightarrow>
            fst (exchange_for_id_jag E id_token s)
              = Inl (HTTPException 401
                  (''ID-JAG exchange failed: ''
                     @ py_str E (alist_get d ''error_description'' (alist_get d ''error'' PNone)))))"
proof -
  have "\<exists>e. id_jag_of_response E resp = Inl e"
    using status by (simp add: id_jag_of_response_def split: sum.splits)
  moreover have "id_jag_of_response E resp
      = Inl (HTTPException 401
              (''ID-JAG exchange failed: ''
                 @ py_str E (alist_get d ''error_description'' (alist_get d ''error'' PNone))))"
    if "json_body resp = Some (PDict d)" for d
    using status that by (simp add: id_jag_of_response_def response_json_def)
  ultimately show ?thesis
    unfolding exchange_for_id_jag_eq[OF mint reply] by blast
qed

text \<open>
  Claim C2. The claim has \<^verbatim>\<open>exchange_for_id_jag\<close> raise, for every response with a
  status other than 200, the error that carries the upstream error code or description.
  The code builds that \<^verbatim>\<open>HTTPException\<close> 401 from \<^verbatim>\<open>response.json()\<close>: when a gateway
  answers 502 with a body that is not JSON, what is raised is the \<^verbatim>\<open>JSONDecodeError\<close> of
  the parser, not the 401.
\<close>

theorem exchange_for_id_jag_bad_gateway:
  "fst (exchange_for_id_jag (test_env ''jwk-json'' bad_gateway) ''id-token'' init_state)
     = Inl JSONDecodeError"
proof -
  have r: "http (test_env ''jwk-json'' bad_gateway) n req
             = Inr \<lparr>status_code = 502, json_body = None\<rparr>" for n req
    by (simp add: test_env_def bad_gateway_def)
  show ?thesis
    by (simp add: exchange_for_id_jag_eq[OF generate_wlp_assertion_test_env r]
        id_jag_of_response_def response_json_def)
qed

text \<open>
  Claim C9. When the org authorization server answers 200 with a JSON object that has no
  \<^verbatim>\<open>id_token\<close> field, \<^verbatim>\<open>exchange_for_id_jag\<close> returns \<^verbatim>\<open>None\<close> and does not raise.
\<close>

theorem exchange_for_id_jag_missing_token:
  assumes mint: "generate_wlp_assertion E None s = (Inr ca, s1)"
    and reply: "http E (length (sent s1)) (id_jag_request E id_token ca) = Inr resp"
    and status: "status_code resp = 200"
    and body: "json_body resp = Some (PDict d)"
    and missing: "map_of d ''id_token'' = None"
  shows "fst (exchange_for_id_jag E id_token s) = Inr PNone"
  unfolding exchange_for_id_jag_eq[OF mint reply]
  using status body missing
  by (simp add: id_jag_of_response_def response_json_def alist_get_def)

theorem exchange_for_id_jag_missing_token_witness:
  "fst (exchange_for_id_jag
          (test_env ''jwk-json'' (ok_server (PDict [(''token_type'', PStr ''Bearer'')])))
          ''id-token'' init_state) = Inr PNone"
proof -
  have r: "http (test_env ''jwk-json'' (ok_server (PDict [(''token_type'', PStr ''Bearer'')]))) n req
             = Inr \<lparr>status_code = 200,
                    json_body = Some (PDict [(''token_type'', PStr ''Bearer'')])\<rparr>" for n req
    by (simp add: test_env_def ok_server_def)
  show ?thesis
    using exchange_for_id_jag_missing_token[where id_token = "''id-token''"
        and d = "[(''token_type'', PStr ''Bearer'')]",
        OF generate_wlp_assertion_test_env r]
    by simp
qed

section \<open>The assertion signer\<close>

















section \<open>The federated token vault client\<close>

lemma fetch_management_token_sends:
  "sent (snd (fetch_management_token E s)) = sent s @ [management_request E]"
  by (simp add: fetch_management_token_def http_send_def time_time_def Let_def
      split: sum.splits option.splits)

lemma fetch_management_token_granted:
  assumes "http E (length (sent s)) (management_request E) = Inr resp"
    and "status_code resp = 200"
    and "json_body resp = Some (PDict d)"
    and "map_of d ''access_token'' = Some tok"
    and "float_of E (alist_get d ''expires_in'' (PInt 86400)) = Inr n"
  shows "fetch_management_token E s =
           (Inr tok,
            s\<lparr>sent := sent s @ [management_request E], management_token := tok,
              ticks := Suc (ticks s),
              token_expiry := fsub E (fadd E (clock E (ticks s)) n) 60\<rparr>)"
  using assms
  by (simp add: fetch_management_token_def http_send_def time_time_def response_json_def)

lemma fetch_management_token_refused:
  assumes "http E (length (sent s)) (management_request E) = Inr resp"
    and "status_code resp \<noteq> 200"
  shows "fetch_management_token E s =
           (Inl (HTTPException 500 ''Failed to get Auth0 management token''),
            s\<lparr>sent := sent s @ [management_request E]\<rparr>)"
  using assms by (simp add: fetch_management_token_def http_send_def)

lemma get_management_token_hit:
  assumes "truthy (management_token s)" and "clock E (ticks s) < token_expiry s"
  shows "get_management_token E s = (Inr (management_token s), s\<lparr>ticks := Suc (ticks s)\<rparr>)"
  using assms by (simp add: get_management_token_def time_time_def)

lemma get_management_token_expired:
  assumes "truthy (management_token s)" and "token_expiry s \<le> clock E (ticks s)"
  shows "get_management_token E s = fetch_management_token E (s\<lparr>ticks := Suc (ticks s)\<rparr>)"
  using assms by (simp add: get_management_token_def time_time_def)

lemma get_management_token_cold:
  assumes "\<not> truthy (management_token s)"
  shows "get_management_token E s = fetch_management_token E s"
  using assms by (simp add: get_management_token_def)

lemma vault_server_reply:
  "http (test_env key (vault_server body)) n (management_request (test_env key (vault_server body)))
     = Inr \<lparr>status_code = 200,
            json_body =
              Some (PDict [(''access_token'', PStr (''mgmt-token'' @ replicate n (CHR ''+''))),
                           (''expires_in'', PInt 3600)])\<rparr>"
  by (simp add: test_env_def vault_server_def management_request_def auth0_token_endpoint_def
      test_settings_def)

lemma test_env_floats:
  "float_of (test_env key up) (PInt i) = Inr (real_of_int i)"
  "fadd (test_env key up) a b = a + b"
  "fsub (test_env key up) a b = a - b"
  "clock (test_env key up) k = 1700000000 + real k"
  by (simp_all add: test_env_def float_of_def)

lemma vault_server_grant:
  "get_management_token (test_env key (vault_server body)) init_state =
     (Inr (PStr ''mgmt-token''),
      init_state\<lparr>sent := [management_request (test_env key (vault_server body))],
        management_token := PStr ''mgmt-token'', ticks := 1, token_expiry := 1700003540\<rparr>)"
proof -
  let ?E = "test_env key (vault_server body)"
  have cold: "\<not> truthy (management_token init_state)"
    by (simp add: init_state_def)
  have z: "sent init_state = []" "ticks init_state = 0"
    by (simp_all add: init_state_def)
  have "fetch_management_token ?E init_state =
      (Inr (PStr ''mgmt-token''),
       init_state\<lparr>sent := sent init_state @ [management_request ?E],
         management_token := PStr ''mgmt-token'', ticks := Suc (ticks init_state),
         token_expiry := fsub ?E (fadd ?E (clock ?E (ticks init_state)) 3600) 60\<rparr>)"
    using fetch_management_token_granted[where E = ?E and s = init_state
        and d = "[(''access_token'', PStr ''mgmt-token''), (''expires_in'', PInt 3600)]"
        and tok = "PStr ''mgmt-token''" and n = 3600,
        OF vault_server_reply[of key body "length (sent init_state)"]]
    by (simp add: alist_get_def test_env_floats z)
  then show ?thesis
    by (simp add: get_management_token_cold[OF cold] test_env_floats z)
qed

text \<open>
  Claim C6. A call of \<^verbatim>\<open>get_management_token\<close> on an empty cache that is granted a
  token \<open>tok\<close> with \<^verbatim>\<open>expires_in\<close> = \<open>n\<close> (86400 when the grant names none) returns
  \<open>tok\<close> and sets the expiry to the time of the fetch plus \<open>n\<close> minus 60, as floats
  add and subtract. While the cache holds what that call left, a call before that expiry
  returns \<open>tok\<close>, sends no request and leaves the cache as it is. A call at that expiry
  or later is a fetch: it sends the token request again, and when that request is granted
  a token \<open>tok'\<close> for \<open>n'\<close> seconds it returns \<open>tok'\<close> and stores it with the new expiry,
  when it is answered with another status it raises the \<^verbatim>\<open>HTTPException\<close> 500.
\<close>

theorem get_management_token_cached:
  assumes cold: "\<not> truthy (management_token s0)"
    and reply: "http E (length (sent s0)) (management_request E) = Inr resp"
    and status: "status_code resp = 200"
    and body: "json_body resp = Some (PDict d)"
    and token: "map_of d ''access_token'' = Some tok"
    and populated: "truthy tok"
    and expires_in: "float_of E (alist_get d ''expires_in'' (PInt 86400)) = Inr n"
    and later_token: "management_token s = management_token (snd (get_management_token E s0))"
    and later_expiry: "token_expiry s = token_expiry (snd (get_management_token E s0))"
  shows "fst (get_management_token E s0) = Inr tok
     \<and> token_expiry (snd (get_management_token E s0))
         = fsub E (fadd E (clock E (ticks s0)) n) 60
     \<and> (clock E (ticks s) < fsub E (fadd E (clock E (ticks s0)) n) 60 \<longrightarrow>
          fst (get_management_token E s) = Inr tok
          \<and> sent (snd (get_management_token E s)) = sent s
          \<and> management_token (snd (get_management_token E s)) = tok
          \<and> token_expiry (snd (get_management_token E s))
              = fsub E (fadd E (clock E (ticks s0)) n) 60)
     \<and> (fsub E (fadd E (clock E (ticks s0)) n) 60 \<le> clock E (ticks s) \<longrightarrow>
          get_management_token E s = fetch_management_token E (s\<lparr>ticks := Suc (ticks s)\<rparr>)
          \<and> sent (snd (get_management_token E s)) = sent s @ [management_request E]
          \<and> (http E (length (sent s)) (management_request E) = Inr resp'
               \<and> status_code resp' = 200 \<and> json_body resp' = Some (PDict d')
               \<and> map_of d' ''access_token'' = Some tok'
               \<and> float_of E (alist_get d' ''expires_in'' (PInt 86400)) = Inr n' \<longrightarrow>
                 fst (get_management_token E s) = Inr tok'
                 \<and> management_token (snd (get_management_token E s)) = tok'
                 \<and> token_expiry (snd (get_management_token E s))
                     = fsub E (fadd E (clock E (Suc (ticks s))) n') 60)
          \<and> (http E (length (sent s)) (management_request E) = Inr resp'
               \<and> status_code resp' \<noteq> 200 \<longrightarrow>
                 fst (get_management_token E s)
                   = Inl (HTTPException 500 ''Failed to get Auth0 management token'')
                 \<and> management_token (snd (get_management_token E s)) = tok))"
proof -
  let ?expiry = "fsub E (fadd E (clock E (ticks s0)) n) 60"
  let ?s1 = "s\<lparr>ticks := Suc (ticks s)\<rparr>"
  have first: "get_management_token E s0 =
           (Inr tok,
            s0\<lparr>sent := sent s0 @ [management_request E], management_token := tok,
              ticks := Suc (ticks s0), token_expiry := ?expiry\<rparr>)"
    unfolding get_management_token_cold[OF cold]
    by (rule fetch_management_token_granted[OF reply status body token expires_in])
  have tok: "management_token s = tok"
    and expiry: "token_expiry s = ?expiry"
    using later_token later_expiry by (simp_all add: first)
  have hit: "get_management_token E s = (Inr tok, s\<lparr>ticks := Suc (ticks s)\<rparr>)"
    if "clock E (ticks s) < ?expiry"
    using get_management_token_hit[of s E] populated that by (simp add: tok expiry)
  have miss: "get_management_token E s = fetch_management_token E ?s1"
    if "?expiry \<le> clock E (ticks s)"
    using get_management_token_expired[of s E] populated that by (simp add: tok expiry)
  have granted: "fetch_management_token E ?s1 =
           (Inr tok',
            ?s1\<lparr>sent := sent ?s1 @ [management_request E], management_token := tok',
              ticks := Suc (ticks ?s1),
              token_expiry := fsub E (fadd E (clock E (ticks ?s1)) n') 60\<rparr>)"
    if "http E (length (sent s)) (management_request E) = Inr resp'"
       "status_code resp' = 200" "json_body resp' = Some (PDict d')"
       "map_of d' ''access_token'' = Some tok'"
       "float_of E (alist_get d' ''expires_in'' (PInt 86400)) = Inr n'"
    using fetch_management_token_granted[of E ?s1 resp' d' tok' n'] that by simp
  have refused: "fetch_management_token E ?s1 =
           (Inl (HTTPException 500 ''Failed to get Auth0 management token''),
            ?s1\<lparr>sent := sent ?s1 @ [management_request E]\<rparr>)"
    if "http E (length (sent s)) (management_request E) = Inr resp'" "status_code resp' \<noteq> 200"
    using fetch_management_token_refused[of E ?s1 resp'] that by simp
  have cached: "clock E (ticks s) < ?expiry \<longrightarrow>
          fst (get_management_token E s) = Inr tok
          \<and> sent (snd (get_management_token E s)) = sent s
          \<and> management_token (snd (get_management_token E s)) = tok
          \<and> token_expiry (snd (get_management_token E s)) = ?expiry"
    using hit by (simp add: tok expiry)
  have expired: "?expiry \<le> clock E (ticks s) \<longrightarrow>
          get_management_token E s = fetch_management_token E ?s1
          \<and> sent (snd (get_management_token E s)) = sent s @ [management_request E]
          \<and> (http E (length (sent s)) (management_request E) = Inr resp'
               \<and> status_code resp' = 200 \<and> json_body resp' = Some (PDict d')
               \<and> map_of d' ''access_token'' = Some tok'
               \<and> float_of E (alist_get d' ''expires_in'' (PInt 86400)) = Inr n' \<longrightarrow>
                 fst (get_management_token E s) = Inr tok'
                 \<and> management_token (snd (get_management_token E s)) = tok'
                 \<and> token_expiry (snd (get_management_token E s))
                     = fsub E (fadd E (clock E (Suc (ticks s))) n') 60)
          \<and> (http E (length (sent s)) (management_request E) = Inr resp'
               \<and> status_code resp' \<noteq> 200 \<longrightarrow>
                 fst (get_management_token E s)
                   = Inl (HTTPException 500 ''Failed to get Auth0 management token'')
                 \<and> management_token (snd (get_management_token E s)) = tok)"
  proof
    assume late: "?expiry \<le> clock E (ticks s)"
    have m: "get_management_token E s = fetch_management_token E ?s1"
      by (rule miss[OF late])
    have snt: "sent (snd (get_management_token E s)) = sent s @ [management_request E]"
      by (simp add: m fetch_management_token_sends)
    have g: "http E (length (sent s)) (management_request E) = Inr resp'
               \<and> status_code resp' = 200 \<and> json_body resp' = Some (PDict d')
               \<and> map_of d' ''access_token'' = Some tok'
               \<and> float_of E (alist_get d' ''expires_in'' (PInt 86400)) = Inr n' \<longrightarrow>
                 fst (get_management_token E s) = Inr tok'
                 \<and> management_token (snd (get_management_token E s)) = tok'
                 \<and> token_expiry (snd (get_management_token E s))
                     = fsub E (fadd E (clock E (Suc (ticks s))) n') 60"
      using granted by (simp add: m)
    have r: "http E (length (sent s)) (management_request E) = Inr resp'
               \<and> status_code resp' \<noteq> 200 \<longrightarrow>
                 fst (get_management_token E s)
                   = Inl (HTTPException 500 ''Failed to get Auth0 management token'')
                 \<and> management_token (snd (get_management_token E s)) = tok"
      using refused by (simp add: m tok)
    from m snt g r
    show "get_management_token E s = fetch_management_token E ?s1
          \<and> sent (snd (get_management_token E s)) = sent s @ [management_request E]
          \<and> (http E (length (sent s)) (management_request E) = Inr resp'
               \<and> status_code resp' = 200 \<and> json_body resp' = Some (PDict d')
               \<and> map_of d' ''access_token'' = Some tok'
               \<and> float_of E (alist_get d' ''expires_in'' (PInt 86400)) = Inr n' \<longrightarrow>
                 fst (get_management_token E s) = Inr tok'
                 \<and> management_token (snd (get_management_token E s)) = tok'
                 \<and> token_expiry (snd (get_management_token E s))
                     = fsub E (fadd E (clock E (Suc (ticks s))) n') 60)
          \<and> (http E (length (sent s)) (management_request E) = Inr resp'
               \<and> status_code resp' \<noteq> 200 \<longrightarrow>
                 fst (get_management_token E s)
                   = Inl (HTTPException 500 ''Failed to get Auth0 management token'')
                 \<and> management_token (snd (get_management_token E s)) = tok)"
      by blast
  qed
  have a: "fst (get_management_token E s0) = Inr tok"
    and b: "token_expiry (snd (get_management_token E s0)) = ?expiry"
    by (simp_all add: first)
  from a b cached expired show ?thesis
    by blast
qed

theorem get_management_token_cached_witness:
  "fst (get_management_token (test_env ''jwk-json'' (vault_server PNone)) init_state)
     = Inr (PStr ''mgmt-token'')
   \<and> fst (get_management_token (test_env ''jwk-json'' (vault_server PNone))
           (snd (get_management_token (test_env ''jwk-json'' (vault_server PNone)) init_state)))
     = Inr (PStr ''mgmt-token'')
   \<and> sent (snd (get_management_token (test_env ''jwk-json'' (vault_server PNone))
           (snd (get_management_token (test_env ''jwk-json'' (vault_server PNone)) init_state))))
     = sent (snd (get_management_token (test_env ''jwk-json'' (vault_server PNone)) init_state))
   \<and> fst (get_management_token (test_env ''jwk-json'' (vault_server PNone))
           ((snd (get_management_token (test_env ''jwk-json'' (vault_server PNone)) init_state))
              \<lparr>ticks := 4000\<rparr>))
     = Inr (PStr ''mgmt-token+'')
   \<and> token_expiry (snd (get_management_token (test_env ''jwk-json'' (vault_server PNone))
           ((snd (get_management_token (test_env ''jwk-json'' (vault_server PNone)) init_state))
              \<lparr>ticks := 4000\<rparr>)))
     = 1700007541"
proof -
  let ?E = "test_env ''jwk-json'' (vault_server PNone)"
  let ?s = "snd (get_management_token ?E init_state)"
  let ?s4 = "?s\<lparr>ticks := 4000\<rparr>"
  let ?d1 = "[(''access_token'', PStr ''mgmt-token''), (''expires_in'', PInt 3600)]"
  let ?d2 = "[(''access_token'', PStr ''mgmt-token+''), (''expires_in'', PInt 3600)]"
  let ?r1 = "\<lparr>status_code = 200, json_body = Some (PDict ?d1)\<rparr>"
  let ?r2 = "\<lparr>status_code = 200, json_body = Some (PDict ?d2)\<rparr>"
  have cold: "\<not> truthy (management_token init_state)"
    by (simp add: init_state_def)
  have z: "sent init_state = []" "ticks init_state = 0"
    by (simp_all add: init_state_def)
  have reply1: "http ?E (length (sent init_state)) (management_request ?E) = Inr ?r1"
    using vault_server_reply[of "''jwk-json''" PNone 0] by (simp add: z)
  have reply2: "http ?E (length (sent ?s4)) (management_request ?E) = Inr ?r2"
    using vault_server_reply[of "''jwk-json''" PNone "Suc 0"] by (simp add: vault_server_grant)
  have h1: "status_code ?r1 = 200" "json_body ?r1 = Some (PDict ?d1)"
    "map_of ?d1 ''access_token'' = Some (PStr ''mgmt-token'')" "truthy (PStr ''mgmt-token'')"
    "float_of ?E (alist_get ?d1 ''expires_in'' (PInt 86400)) = Inr 3600"
    by (simp_all add: alist_get_def test_env_floats)
  have h2: "status_code ?r2 = 200 \<and> json_body ?r2 = Some (PDict ?d2)
      \<and> map_of ?d2 ''access_token'' = Some (PStr ''mgmt-token+'')
      \<and> float_of ?E (alist_get ?d2 ''expires_in'' (PInt 86400)) = Inr 3600"
    by (simp add: alist_get_def test_env_floats)
  have before: "clock ?E (ticks ?s) < fsub ?E (fadd ?E (clock ?E (ticks init_state)) 3600) 60"
    by (simp add: vault_server_grant test_env_floats z)
  have after: "fsub ?E (fadd ?E (clock ?E (ticks init_state)) 3600) 60 \<le> clock ?E (ticks ?s4)"
    by (simp add: test_env_floats z)
  have same: "management_token ?s4 = management_token ?s" "token_expiry ?s4 = token_expiry ?s"
    by simp_all
  note grant = get_management_token_cached[OF cold reply1 h1]
  have c1: "fst (get_management_token ?E init_state) = Inr (PStr ''mgmt-token'')
      \<and> fst (get_management_token ?E ?s) = Inr (PStr ''mgmt-token'')
      \<and> sent (snd (get_management_token ?E ?s)) = sent ?s"
    using grant[OF refl refl] before by blast
  have c2: "fst (get_management_token ?E ?s4) = Inr (PStr ''mgmt-token+'')
      \<and> token_expiry (snd (get_management_token ?E ?s4))
          = fsub ?E (fadd ?E (clock ?E (Suc (ticks ?s4))) 3600) 60"
    using grant[OF same, where resp' = ?r2 and d' = ?d2 and tok' = "PStr ''mgmt-token+''"
        and n' = 3600] after reply2 h2
    by blast
  have t: "fsub ?E (fadd ?E (clock ?E (Suc (ticks ?s4))) 3600) 60 = 1700007541"
    by (simp add: test_env_floats)
  from c1 c2 t show ?thesis
    by simp
qed

text \<open>
  Claim C8, as the code has it. Once the management token is at hand and the vault has
  answered the search, \<^verbatim>\<open>get_user_id_from_okta_sub\<close> returns \<^verbatim>\<open>None\<close> and does not
  raise when the status is not 200 and when the record list is empty. For a 200 answer
  with a record list that is not empty it returns the \<^verbatim>\<open>user_id\<close> of the first record:
  no record is compared with the subject, the match is the work of the vault's query.
\<close>

theorem get_user_id_from_okta_sub_first_record:
  assumes token: "get_management_token E s = (Inr token, s1)"
    and reply: "http E (length (sent s1)) (search_request E okta_sub token) = Inr resp"
  shows "(status_code resp \<noteq> 200 \<longrightarrow> fst (get_user_id_from_okta_sub E okta_sub s) = Inr PNone)
     \<and> (json_body resp = Some (PList []) \<longrightarrow>
          fst (get_user_id_from_okta_sub E okta_sub s) = Inr PNone)
     \<and> (status_code resp = 200 \<and> json_body resp = Some (PList (PDict u # rest)) \<longrightarrow>
          fst (get_user_id_from_okta_sub E okta_sub s) = Inr (alist_get u ''user_id'' PNone))"
  using reply
  by (simp add: get_user_id_from_okta_sub_def token http_send_def user_id_of_response_def
      response_json_def)

theorem get_user_id_from_okta_sub_first_record_witness:
  "fst (get_user_id_from_okta_sub (test_env ''jwk-json'' (vault_server (PList []))) ''user-42''
          init_state) = Inr PNone
   \<and> fst (get_user_id_from_okta_sub
            (test_env ''jwk-json''
               (vault_server (PList [PDict [(''user_id'', PStr ''auth0|u42'')]])))
            ''user-42'' init_state) = Inr (PStr ''auth0|u42'')"
proof -
  have r: "http (test_env ''jwk-json'' (vault_server body)) n
             (search_request (test_env ''jwk-json'' (vault_server body)) ''user-42''
                (PStr ''mgmt-token''))
             = Inr \<lparr>status_code = 200, json_body = Some body\<rparr>" for n body
    by (simp add: test_env_def vault_server_def search_request_def test_settings_def)
  show ?thesis
    using
      get_user_id_from_okta_sub_first_record[OF
        vault_server_grant[of "''jwk-json''" "PList []"] r]
      get_user_id_from_okta_sub_first_record[where u = "[(''user_id'', PStr ''auth0|u42'')]"
        and rest = "[]",
        OF vault_server_grant[of "''jwk-json''" "PList [PDict [(''user_id'', PStr ''auth0|u42'')]]"]
          r]
    by (simp add: alist_get_def)
qed

text \<open>The vault answers the search for \<open>user-42\<close> with the record of a user linked to
  \<open>user-7\<close>: the call returns that user's id.\<close>

theorem get_user_id_from_okta_sub_counterexample:
  "fst (get_user_id_from_okta_sub (test_env ''jwk-json'' (vault_server other_user_records))
          ''user-42'' init_state) = Inr (PStr ''auth0|other'')"
proof -
  let ?E = "test_env ''jwk-json'' (vault_server other_user_records)"
  have r: "http ?E n (search_request ?E ''user-42'' (PStr ''mgmt-token''))
             = Inr \<lparr>status_code = 200, json_body = Some other_user_records\<rparr>" for n
    by (simp add: test_env_def vault_server_def search_request_def test_settings_def)
  have "fst (get_user_id_from_okta_sub ?E ''user-42'' init_state)
          = user_id_of_response \<lparr>status_code = 200, json_body = Some other_user_records\<rparr>"
    by (simp add: get_user_id_from_okta_sub_def vault_server_grant http_send_def r)
  then show ?thesis
    by (simp add: user_id_of_response_def response_json_def other_user_records_def alist_get_def)
qed

lemma py_eq_PStr: "py_eq p (PStr c) \<longleftrightarrow> p = PStr c"
  by (cases p) auto

lemma provider_matches:
  "py_eq (alist_get i ''provider'' PNone) (PStr conn) \<longleftrightarrow> map_of i ''provider'' = Some (PStr conn)"
  by (simp add: py_eq_PStr alist_get_def split: option.splits)

lemma find_identity_none:
  "\<forall>j \<in> set ids. map_of j ''provider'' \<noteq> Some (PStr conn) \<Longrightarrow>
   find_identity conn (map PDict ids) = Inr PNone"
  by (induction ids) (simp_all add: provider_matches)

lemma find_identity_first:
  "\<forall>j \<in> set pre. map_of j ''provider'' \<noteq> Some (PStr conn) \<Longrightarrow>
   map_of i ''provider'' = Some (PStr conn) \<Longrightarrow>
   find_identity conn (map PDict (pre @ i # post)) = Inr (PDict i)"
  by (induction pre) (simp_all add: provider_matches)

lemma get_salesforce_token_eq:
  assumes "vault_or_management_token E vault_token s = (Inr token, s1)"
    and "http E (length (sent s1)) (user_request E auth0_user_id token) = Inr resp"
  shows "fst (get_salesforce_token E auth0_user_id vault_token s) = salesforce_of_response E resp"
  using assms by (simp add: get_salesforce_token_def http_send_def)

text \<open>
  Claim C7, as the code has it. When no vault token is passed in (or an empty one) and
  \<^verbatim>\<open>get_management_token\<close> raises, \<^verbatim>\<open>get_salesforce_token\<close> raises the same error and
  sends no user lookup. Once the bearer token is at hand (a vault token was passed in, or
  the management token was obtained) and the vault answers the user lookup, it returns,
  in this order of checks: the denial \<^verbatim>\<open>user_not_found\<close> on a status other than 200;
  for a 200 whose body is a JSON object with a list of identity objects, the denial
  \<^verbatim>\<open>salesforce_not_connected\<close> when no identity has the configured connection name as
  its \<^verbatim>\<open>provider\<close>; the denial \<^verbatim>\<open>no_token\<close> when the first such identity has no (or
  an empty) \<^verbatim>\<open>access_token\<close>; and otherwise the success result with that identity's
  access token.
\<close>

theorem get_salesforce_token_denials:
  "((vault_token = None \<or> vault_token = Some []) \<and> get_management_token E s = (Inl e, s_err) \<longrightarrow>
      get_salesforce_token E auth0_user_id vault_token s = (Inl e, s_err))
   \<and> (vault_or_management_token E vault_token s = (Inr token, s_tok)
        \<and> http E (length (sent s_tok)) (user_request E auth0_user_id token) = Inr resp \<longrightarrow>
      (status_code resp \<noteq> 200 \<longrightarrow>
            fst (get_salesforce_token E auth0_user_id vault_token s)
              = Inr (PDict [(''success'', PBool False), (''error'', PStr ''user_not_found''),
                            (''error_description'', PStr ''Could not find user in Auth0'')]))
     \<and> (status_code resp = 200 \<and> json_body resp = Some (PDict d)
          \<and> alist_get d ''identities'' (PList []) = PList (map PDict ids)
          \<and> (\<forall>j \<in> set ids.
                map_of j ''provider'' \<noteq> Some (PStr (salesforce_connection_name (cfg E)))) \<longrightarrow>
            fst (get_salesforce_token E auth0_user_id vault_token s)
              = Inr (PDict [(''success'', PBool False),
                            (''error'', PStr ''salesforce_not_connected''),
                            (''error_description'',
                               PStr ''User has not connected their Salesforce account'')]))
     \<and> (status_code resp = 200 \<and> json_body resp = Some (PDict d)
          \<and> alist_get d ''identities'' (PList []) = PList (map PDict (pre @ i # post))
          \<and> (\<forall>j \<in> set pre.
                map_of j ''provider'' \<noteq> Some (PStr (salesforce_connection_name (cfg E))))
          \<and> map_of i ''provider'' = Some (PStr (salesforce_connection_name (cfg E))) \<longrightarrow>
            fst (get_salesforce_token E auth0_user_id vault_token s)
              = (if \<not> truthy (alist_get i ''access_token'' PNone)
                 then Inr (PDict [(''success'', PBool False), (''error'', PStr ''no_token''),
                                  (''error_description'', PStr ''No Salesforce token available'')])
                 else Inr (PDict [(''success'', PBool True),
                                  (''access_token'', alist_get i ''access_token'' PNone),
                                  (''refresh_token'', alist_get i ''refresh_token'' PNone),
                                  (''instance_url'', PStr (salesforce_instance_url (cfg E)))]))))"
proof -
  have raised: "get_salesforce_token E auth0_user_id vault_token s = (Inl e, s_err)"
    if "vault_token = None \<or> vault_token = Some []" "get_management_token E s = (Inl e, s_err)"
    using that by (auto simp: get_salesforce_token_def vault_or_management_token_def)
  have not_found: "salesforce_of_response E resp
      = Inr (PDict [(''success'', PBool False), (''error'', PStr ''user_not_found''),
                    (''error_description'', PStr ''Could not find user in Auth0'')])"
    if "status_code resp \<noteq> 200"
    using that by (simp add: salesforce_of_response_def denial_def)
  have not_connected: "salesforce_of_response E resp
      = Inr (PDict [(''success'', PBool False), (''error'', PStr ''salesforce_not_connected''),
                    (''error_description'',
                       PStr ''User has not connected their Salesforce account'')])"
    if "status_code resp = 200" "json_body resp = Some (PDict d)"
       "alist_get d ''identities'' (PList []) = PList (map PDict ids)"
       "\<forall>j \<in> set ids. map_of j ''provider'' \<noteq> Some (PStr (salesforce_connection_name (cfg E)))"
    using that(1-3) find_identity_none[OF that(4)]
    by (simp add: salesforce_of_response_def denial_def response_json_def)
  have found: "salesforce_of_response E resp
      = (if \<not> truthy (alist_get i ''access_token'' PNone)
         then Inr (PDict [(''success'', PBool False), (''error'', PStr ''no_token''),
                          (''error_description'', PStr ''No Salesforce token available'')])
         else Inr (PDict [(''success'', PBool True),
                          (''access_token'', alist_get i ''access_token'' PNone),
                          (''refresh_token'', alist_get i ''refresh_token'' PNone),
                          (''instance_url'', PStr (salesforce_instance_url (cfg E)))]))"
    if "status_code resp = 200" "json_body resp = Some (PDict d)"
       "alist_get d ''identities'' (PList []) = PList (map PDict (pre @ i # post))"
       "\<forall>j \<in> set pre. map_of j ''provider'' \<noteq> Some (PStr (salesforce_connection_name (cfg E)))"
       "map_of i ''provider'' = Some (PStr (salesforce_connection_name (cfg E)))"
  proof -
    have nonempty: "i \<noteq> []"
      using that(5) by auto
    show ?thesis
      using that(1-3) find_identity_first[OF that(4,5), of post] nonempty
      by (simp add: salesforce_of_response_def denial_def response_json_def)
  qed
  have answered: "fst (get_salesforce_token E auth0_user_id vault_token s)
                    = salesforce_of_response E resp"
    if "vault_or_management_token E vault_token s = (Inr token, s_tok)"
       "http E (length (sent s_tok)) (user_request E auth0_user_id token) = Inr resp"
    using that by (rule get_salesforce_token_eq)
  show ?thesis
    using raised answered not_found not_connected found by (simp (no_asm_simp))
qed

theorem get_salesforce_token_denials_witness:
  "get_salesforce_token (test_env ''jwk-json'' failing_server) ''auth0|u1'' (Some '''') init_state
     = (Inl (HTTPException 500 ''Failed to get Auth0 management token''),
        init_state\<lparr>sent := [management_request (test_env ''jwk-json'' failing_server)]\<rparr>)
   \<and> fst (get_salesforce_token (test_env ''jwk-json'' failing_server) ''auth0|u1'' (Some ''vt'')
          init_state)
     = Inr (PDict [(''success'', PBool False), (''error'', PStr ''user_not_found''),
                   (''error_description'', PStr ''Could not find user in Auth0'')])
   \<and> fst (get_salesforce_token
            (test_env ''jwk-json''
               (vault_server (PDict [(''identities'', PList [PDict [(''provider'', PStr ''okta'')]])])))
            ''auth0|u1'' None init_state)
     = Inr (PDict [(''success'', PBool False), (''error'', PStr ''salesforce_not_connected''),
                   (''error_description'',
                      PStr ''User has not connected their Salesforce account'')])
   \<and> fst (get_salesforce_token
            (test_env ''jwk-json''
               (vault_server (PDict [(''identities'',
                  PList [PDict [(''provider'', PStr ''okta'')],
                         PDict [(''provider'', PStr ''salesforce'')]])])))
            ''auth0|u1'' None init_state)
     = Inr (PDict [(''success'', PBool False), (''error'', PStr ''no_token''),
                   (''error_description'', PStr ''No Salesforce token available'')])
   \<and> fst (get_salesforce_token
            (test_env ''jwk-json''
               (vault_server (PDict [(''identities'',
                  PList [PDict [(''provider'', PStr ''okta'')],
                         PDict [(''provider'', PStr ''salesforce''),
                                (''access_token'', PStr ''sf-token'')]])])))
            ''auth0|u1'' None init_state)
     = Inr (PDict [(''success'', PBool True), (''access_token'', PStr ''sf-token''),
                   (''refresh_token'', PNone), (''instance_url'', PStr ''https://crm.example'')])"
proof -
  let ?F = "test_env ''jwk-json'' failing_server"
  let ?okta = "[(''provider'', PStr ''okta'')]"
  let ?sf0 = "[(''provider'', PStr ''salesforce'')]"
  let ?sf1 = "[(''provider'', PStr ''salesforce''), (''access_token'', PStr ''sf-token'')]"
  let ?b1 = "[(''identities'', PList [PDict ?okta])]"
  let ?b2 = "[(''identities'', PList [PDict ?okta, PDict ?sf0])]"
  let ?b3 = "[(''identities'', PList [PDict ?okta, PDict ?sf1])]"
  have r0: "http ?F n req = Inr \<lparr>status_code = 500, json_body = Some (PDict [])\<rparr>" for n req
    by (simp add: test_env_def failing_server_def)
  have cold: "\<not> truthy (management_token init_state)" "sent init_state = []"
    by (simp_all add: init_state_def)
  have refused: "get_management_token ?F init_state
      = (Inl (HTTPException 500 ''Failed to get Auth0 management token''),
         init_state\<lparr>sent := [management_request ?F]\<rparr>)"
    using fetch_management_token_refused[OF r0, of init_state] cold
    by (simp add: get_management_token_cold)
  have vt: "vault_or_management_token ?F (Some ''vt'') init_state = (Inr (PStr ''vt''), init_state)"
    by (simp add: vault_or_management_token_def)
  have mt: "vault_or_management_token (test_env ''jwk-json'' (vault_server body)) None init_state
      = get_management_token (test_env ''jwk-json'' (vault_server body)) init_state" for body
    by (simp add: vault_or_management_token_def)
  have r: "http (test_env ''jwk-json'' (vault_server body)) n
             (user_request (test_env ''jwk-json'' (vault_server body)) ''auth0|u1'' tok)
      = Inr \<lparr>status_code = 200, json_body = Some body\<rparr>" for body n tok
    by (simp add: test_env_def vault_server_def user_request_def test_settings_def)
  have conn: "salesforce_connection_name (cfg (test_env ''jwk-json'' up)) = ''salesforce''"
    "salesforce_instance_url (cfg (test_env ''jwk-json'' up)) = ''https://crm.example''" for up
    by (simp_all add: test_env_def test_settings_def)
  note g = mt[unfolded vault_server_grant]
  have w0: "get_salesforce_token ?F ''auth0|u1'' (Some '''') init_state
     = (Inl (HTTPException 500 ''Failed to get Auth0 management token''),
        init_state\<lparr>sent := [management_request ?F]\<rparr>)"
    using get_salesforce_token_denials[where E = ?F and vault_token = "Some ''''"
        and s = init_state and auth0_user_id = "''auth0|u1''"
        and e = "HTTPException 500 ''Failed to get Auth0 management token''"
        and s_err = "init_state\<lparr>sent := [management_request ?F]\<rparr>"] refused
    by simp
  have w1: "fst (get_salesforce_token ?F ''auth0|u1'' (Some ''vt'') init_state)
     = Inr (PDict [(''success'', PBool False), (''error'', PStr ''user_not_found''),
                   (''error_description'', PStr ''Could not find user in Auth0'')])"
    using get_salesforce_token_denials[where E = ?F and vault_token = "Some ''vt''"
        and s = init_state and auth0_user_id = "''auth0|u1''" and token = "PStr ''vt''"
        and s_tok = init_state
        and resp = "\<lparr>status_code = 500, json_body = Some (PDict [])\<rparr>"] vt r0
    by simp
  have w2: "fst (get_salesforce_token (test_env ''jwk-json'' (vault_server (PDict ?b1)))
                   ''auth0|u1'' None init_state)
     = Inr (PDict [(''success'', PBool False), (''error'', PStr ''salesforce_not_connected''),
                   (''error_description'',
                      PStr ''User has not connected their Salesforce account'')])"
    using get_salesforce_token_denials[where E = "test_env ''jwk-json'' (vault_server (PDict ?b1))"
        and vault_token = None and s = init_state and auth0_user_id = "''auth0|u1''"
        and token = "PStr ''mgmt-token''" and d = ?b1 and ids = "[?okta]"
        and resp = "\<lparr>status_code = 200, json_body = Some (PDict ?b1)\<rparr>"] g r
    by (simp add: conn alist_get_def)
  have w3: "fst (get_salesforce_token (test_env ''jwk-json'' (vault_server (PDict ?b2)))
                   ''auth0|u1'' None init_state)
     = Inr (PDict [(''success'', PBool False), (''error'', PStr ''no_token''),
                   (''error_description'', PStr ''No Salesforce token available'')])"
    using get_salesforce_token_denials[where E = "test_env ''jwk-json'' (vault_server (PDict ?b2))"
        and vault_token = None and s = init_state and auth0_user_id = "''auth0|u1''"
        and token = "PStr ''mgmt-token''" and d = ?b2
        and pre = "[?okta]" and i = ?sf0 and post = "[]"
        and resp = "\<lparr>status_code = 200, json_body = Some (PDict ?b2)\<rparr>"] g r
    by (simp add: conn alist_get_def)
  have w4: "fst (get_salesforce_token (test_env ''jwk-json'' (vault_server (PDict ?b3)))
                   ''auth0|u1'' None init_state)
     = Inr (PDict [(''success'', PBool True), (''access_token'', PStr ''sf-token''),
                   (''refresh_token'', PNone), (''instance_url'', PStr ''https://crm.example'')])"
    using get_salesforce_token_denials[where E = "test_env ''jwk-json'' (vault_server (PDict ?b3))"
        and vault_token = None and s = init_state and auth0_user_id = "''auth0|u1''"
        and token = "PStr ''mgmt-token''" and d = ?b3
        and pre = "[?okta]" and i = ?sf1 and post = "[]"
        and resp = "\<lparr>status_code = 200, json_body = Some (PDict ?b3)\<rparr>"] g r
    by (simp add: conn alist_get_def)
  from w0 w1 w2 w3 w4 show ?thesis
    by (simp only: simp_thms)
qed

text \<open>Called without a vault token while the vault refuses the management token, the
  function raises.\<close>

theorem get_salesforce_token_counterexample:
  "fst (get_salesforce_token (test_env ''jwk-json'' failing_server) ''auth0|u1'' None init_state)
     = Inl (HTTPException 500 ''Failed to get Auth0 management token'')"
  by (simp add: get_salesforce_token_def vault_or_management_token_def get_management_token_def
      fetch_management_token_def http_send_def init_state_def test_env_def failing_server_def)

section \<open>The scope gate of the inventory tools\<close>

lemma execute_tool_not_denied:
  "\<not> scope_denied self required_scope \<Longrightarrow>
   tc_status (fst (execute_tool E self tool func required_scope kwargs s st))
     = (case fst (func st) of Inl msg \<Rightarrow> ERROR | Inr res \<Rightarrow> COMPLETED)
   \<and> tc_error (fst (execute_tool E self tool func required_scope kwargs s st))
     = (case fst (func st) of Inl msg \<Rightarrow> Some msg | Inr res \<Rightarrow> None)
   \<and> tc_result (fst (execute_tool E self tool func required_scope kwargs s st))
     = (case fst (func st) of Inl msg \<Rightarrow> None | Inr res \<Rightarrow> Some res)
   \<and> snd (snd (execute_tool E self tool func required_scope kwargs s st)) = snd (func st)"
  by (simp add: execute_tool_def Let_def split: prod.splits sum.splits)

lemma default_user_scopes:
  "scopes = None \<or> scopes = Some [] \<Longrightarrow>
   user_scopes (InventoryTools scopes) = all_inventory_scopes"
  by (auto simp: InventoryTools_def)

lemma tool_scopes_known: "(tool, r) \<in> set tool_scopes \<Longrightarrow> r \<in> set all_inventory_scopes"
  by (auto simp: tool_scopes_def all_inventory_scopes_def)

text \<open>
  Claim C10. An \<^verbatim>\<open>InventoryTools\<close> built with no scope list or with an empty one has
  the full scope set as its \<^verbatim>\<open>user_scopes\<close>; \<^verbatim>\<open>_has_scope\<close> holds for each of the
  three inventory scopes; and none of the twelve tools is stopped at the gate of
  \<^verbatim>\<open>_execute_tool\<close>: the tool body is called, the error of the tool call (if any) is
  that call's own and the store is the one it leaves.
\<close>

theorem inventory_tools_default_fail_open:
  assumes "scopes = None \<or> scopes = Some []"
  shows "user_scopes (InventoryTools scopes)
           = [''inventory:read'', ''inventory:write'', ''inventory:alert'']
     \<and> (\<forall>r \<in> set [''inventory:read'', ''inventory:write'', ''inventory:alert''].
           has_scope (InventoryTools scopes) r)
     \<and> (\<forall>(tool, r) \<in> set tool_scopes.
           \<not> scope_denied (InventoryTools scopes) (Some r)
           \<and> (\<forall>E func kwargs s st.
                 tc_error (fst (execute_tool E (InventoryTools scopes) tool func (Some r) kwargs s
                    (st::'st)))
                   = (case fst (func st) of Inl msg \<Rightarrow> Some msg | Inr res \<Rightarrow> None)
                 \<and> snd (snd (execute_tool E (InventoryTools scopes) tool func (Some r) kwargs s st))
                   = snd (func st)))"
proof -
  have us: "user_scopes (InventoryTools scopes) = all_inventory_scopes"
    using assms by (rule default_user_scopes)
  have nd: "\<not> scope_denied (InventoryTools scopes) (Some r)"
    if "(tool, r) \<in> set tool_scopes" for tool r
    using tool_scopes_known[OF that] by (simp add: scope_denied_def has_scope_def us)
  have run: "tc_error (fst (execute_tool E (InventoryTools scopes) tool func (Some r) kwargs s st))
                = (case fst (func st) of Inl msg \<Rightarrow> Some msg | Inr res \<Rightarrow> None)
              \<and> snd (snd (execute_tool E (InventoryTools scopes) tool func (Some r) kwargs s st))
                = snd (func st)"
    if "(tool, r) \<in> set tool_scopes" for tool r E kwargs s
      and func :: "'st \<Rightarrow> (string + pyval) \<times> 'st" and st
    using execute_tool_not_denied[OF nd[OF that], of E tool func kwargs s st] by simp
  have scopes_ok: "\<forall>r \<in> set [''inventory:read'', ''inventory:write'', ''inventory:alert''].
           has_scope (InventoryTools scopes) r"
    by (simp add: has_scope_def us all_inventory_scopes_def)
  have tools_ok: "\<forall>(tool, r) \<in> set tool_scopes.
           \<not> scope_denied (InventoryTools scopes) (Some r)
           \<and> (\<forall>E func kwargs s st.
                 tc_error (fst (execute_tool E (InventoryTools scopes) tool func (Some r) kwargs s
                    (st::'st)))
                   = (case fst (func st) of Inl msg \<Rightarrow> Some msg | Inr res \<Rightarrow> None)
                 \<and> snd (snd (execute_tool E (InventoryTools scopes) tool func (Some r) kwargs s st))
                   = snd (func st))"
    using nd run by blast
  from us scopes_ok tools_ok show ?thesis
    by (simp only: all_inventory_scopes_def)
qed

theorem inventory_tools_default_fail_open_witness:
  "user_scopes (InventoryTools (Some []))
     = [''inventory:read'', ''inventory:write'', ''inventory:alert'']
   \<and> has_scope (InventoryTools (Some [])) ''inventory:write''
   \<and> \<not> scope_denied (InventoryTools (Some [])) (Some ''inventory:alert'')"
proof -
  have "Some [] = None \<or> Some [] = Some ([]::string list)" by simp
  from inventory_tools_default_fail_open[OF this, where 'st=unit] show ?thesis
    by (simp add: tool_scopes_def)
qed

end
